theory Spec2Isabelle
  imports Main "HOL-Library.Sublist"
begin

section \<open>Data model\<close>

text \<open>
  The kinds of change the Form Update Router reports
  (\<^verbatim>\<open>'created' | 'updated' | 'deleted'\<close> in \<^verbatim>\<open>FormUpdateEventData\<close>).
\<close>

datatype changeType = Created | Updated | Deleted

text \<open>
  The two event frames the router writes to a stream. A frame stands for the text
  \<^verbatim>\<open>event: form-update\ndata: {formId, timestamp, changeType}\n\n\<close> or
  \<^verbatim>\<open>event: form-deleted\ndata: {formId, timestamp}\n\n\<close>; the timestamp is the
  clock reading (milliseconds) taken at the start of the dispatch.
\<close>

datatype frame =
    FormUpdateEvent string nat changeType
  | FormDeletedEvent string nat

text \<open>
  What \<^verbatim>\<open>conn.res.write(data)\<close> can do: return \<^verbatim>\<open>true\<close>, return
  \<^verbatim>\<open>false\<close> (buffer full) or throw.
\<close>

datatype write_outcome = WriteOk | WriteBufferFull | WriteThrows

text \<open>
  \<^verbatim>\<open>SSEConnection\<close>. The stream handle \<^verbatim>\<open>res\<close> is modelled by what a write of a
  frame on it does.
\<close>

record sse_connection =
  conn_id :: string
  res :: "frame \<Rightarrow> write_outcome"
  connectedAt :: nat
  lastHeartbeat :: nat
  clientInfo :: "string option"

text \<open>\<^verbatim>\<open>SSEManager\<close>: the Streaming Connection Registry.\<close>

record sse_manager =
  connections :: "string \<rightharpoonup> sse_connection"

text \<open>
  The form document as the tools and the router see it (\<^verbatim>\<open>FormioForm\<close>); a field the
  code reads with \<^verbatim>\<open>?.\<close> or passes on possibly undefined is an option.
\<close>

record formio_form =
  form_id :: "string option"
  title :: "string option"
  name :: "string option"
  path :: "string option"

text \<open>
  A timer of the JavaScript runtime created by \<^verbatim>\<open>debounceNotification\<close>: its handle,
  the time it comes due, and the variables its callback closes over.
\<close>

record timer =
  timer_id :: nat
  due :: nat
  t_formId :: string
  t_changeType :: changeType
  t_formData :: "formio_form option"

text \<open>
  \<^verbatim>\<open>FormUpdateNotifier\<close>: the Form Update Router. The first six fields are the fields of
  the class. \<^verbatim>\<open>timers\<close> and \<^verbatim>\<open>nextTimerId\<close> are the runtime's timer queue;
  \<^verbatim>\<open>written\<close> records every write attempted on a stream with its outcome, and
  \<^verbatim>\<open>dispatched\<close> records every invocation of \<^verbatim>\<open>sendNotification\<close> with its
  arguments. A JavaScript \<^verbatim>\<open>Set\<close> is a list without duplicates in insertion order.
\<close>

record notifier =
  formWatchers :: "string \<rightharpoonup> string list"
  connectionForms :: "string \<rightharpoonup> string"
  connectionActivity :: "string \<rightharpoonup> nat"
  sseManager :: sse_manager
  pendingNotifications :: "string \<rightharpoonup> nat"
  debounceInterval :: nat
  timers :: "timer list"
  nextTimerId :: nat
  written :: "(string \<times> frame \<times> write_outcome) list"
  dispatched :: "(string \<times> changeType \<times> formio_form option) list"

text \<open>The state a freshly constructed notifier has, for a given registry and interval.\<close>

definition new_notifier :: "sse_manager \<Rightarrow> nat \<Rightarrow> notifier" where
  "new_notifier mgr interval =
     \<lparr> formWatchers = Map.empty, connectionForms = Map.empty,
       connectionActivity = Map.empty, sseManager = mgr,
       pendingNotifications = Map.empty, debounceInterval = interval,
       timers = [], nextTimerId = 0, written = [], dispatched = [] \<rparr>"

section \<open>Streaming Connection Registry\<close>

definition hasConnection :: "sse_manager \<Rightarrow> string \<Rightarrow> bool" where
  "hasConnection mgr connectionId = (connections mgr connectionId \<noteq> None)"

definition getConnectionInfo :: "sse_manager \<Rightarrow> string \<Rightarrow> sse_connection option" where
  "getConnectionInfo mgr connectionId = connections mgr connectionId"

text \<open>
  \<^verbatim>\<open>removeConnection\<close> deletes the record of the connection, and \<^verbatim>\<open>sendEvent\<close>, the
  write primitive of the registry, removes a connection whose write throws. The end of
  the stream and the heartbeat timer are left out.
\<close>

definition removeConnection :: "string \<Rightarrow> sse_manager \<Rightarrow> sse_manager" where
  "removeConnection connectionId mgr =
     mgr\<lparr> connections := (connections mgr)(connectionId := None) \<rparr>"

definition sendEvent :: "sse_manager \<Rightarrow> string \<Rightarrow> frame \<Rightarrow> bool \<times> sse_manager" where
  "sendEvent mgr connectionId data =
     (case connections mgr connectionId of
        None \<Rightarrow> (False, mgr)
      | Some conn \<Rightarrow>
          (case res conn data of
             WriteOk \<Rightarrow> (True, mgr)
           | WriteBufferFull \<Rightarrow> (False, mgr)
           | WriteThrows \<Rightarrow> (False, removeConnection connectionId mgr)))"

section \<open>Form Update Router: the watch indices\<close>

text \<open>\<^verbatim>\<open>Set.prototype.add\<close> and \<^verbatim>\<open>Set.prototype.delete\<close>.\<close>

definition set_add :: "'a \<Rightarrow> 'a list \<Rightarrow> 'a list" where
  "set_add x xs = (if x \<in> set xs then xs else xs @ [x])"

definition set_delete :: "'a \<Rightarrow> 'a list \<Rightarrow> 'a list" where
  "set_delete x xs = removeAll x xs"

text \<open>JavaScript truthiness of a string: every string but the empty one.\<close>

definition truthy :: "string \<Rightarrow> bool" where
  "truthy s = (s \<noteq> [])"

definition getConnectionsByForm :: "notifier \<Rightarrow> string \<Rightarrow> string list" where
  "getConnectionsByForm n formId =
     (case formWatchers n formId of Some watchers \<Rightarrow> watchers | None \<Rightarrow> [])"

definition getFormByConnection :: "notifier \<Rightarrow> string \<Rightarrow> string option" where
  "getFormByConnection n connectionId = connectionForms n connectionId"

text \<open>
  \<^verbatim>\<open>unregisterPreviewConnection\<close>. The guard \<^verbatim>\<open>if (!formId) return\<close> takes the early
  return for a connection that is not in the reverse index and for one mapped to the
  empty string.
\<close>

definition unregisterPreviewConnection :: "string \<Rightarrow> notifier \<Rightarrow> notifier" where
  "unregisterPreviewConnection connectionId n =
     (case connectionForms n connectionId of
        None \<Rightarrow> n
      | Some formId \<Rightarrow>
          if \<not> truthy formId then n
          else
            let fw = (case formWatchers n formId of
                        None \<Rightarrow> formWatchers n
                      | Some watchers \<Rightarrow>
                          let watchers' = set_delete connectionId watchers
                          in if length watchers' = 0
                             then (formWatchers n)(formId := None)
                             else (formWatchers n)(formId \<mapsto> watchers'))
            in n\<lparr> formWatchers := fw,
                  connectionForms := (connectionForms n)(connectionId := None),
                  connectionActivity := (connectionActivity n)(connectionId := None) \<rparr>)"

text \<open>
  \<^verbatim>\<open>registerPreviewConnection\<close>; \<open>now\<close> is the reading of \<^verbatim>\<open>new Date()\<close>.
  \<^verbatim>\<open>if (existingFormId)\<close> is a truthiness test, so an existing watch of the empty
  form id counts as no watch.
\<close>

definition registerPreviewConnection :: "nat \<Rightarrow> string \<Rightarrow> string \<Rightarrow> notifier \<Rightarrow> notifier" where
  "registerPreviewConnection now connectionId formId n =
     (let existingFormId = connectionForms n connectionId;
          registered = (case existingFormId of None \<Rightarrow> False | Some e \<Rightarrow> truthy e)
      in if registered \<and> existingFormId = Some formId
         then n\<lparr> connectionActivity := (connectionActivity n)(connectionId \<mapsto> now) \<rparr>
         else
           let n1 = (if registered then unregisterPreviewConnection connectionId n else n);
               watchers = (case formWatchers n1 formId of None \<Rightarrow> [] | Some ws \<Rightarrow> ws)
           in n1\<lparr> formWatchers := (formWatchers n1)(formId \<mapsto> set_add connectionId watchers),
                   connectionForms := (connectionForms n1)(connectionId \<mapsto> formId),
                   connectionActivity := (connectionActivity n1)(connectionId \<mapsto> now) \<rparr>)"

text \<open>A call of one of the two operations, and a sequence of calls run from a state.\<close>

datatype watch_call =
    Register nat string string
  | Unregister string

fun apply_call :: "watch_call \<Rightarrow> notifier \<Rightarrow> notifier" where
  "apply_call (Register now connectionId formId) n =
     registerPreviewConnection now connectionId formId n"
| "apply_call (Unregister connectionId) n = unregisterPreviewConnection connectionId n"

fun run_calls :: "watch_call list \<Rightarrow> notifier \<Rightarrow> notifier" where
  "run_calls [] n = n"
| "run_calls (c # cs) n = run_calls cs (apply_call c n)"

text \<open>
  The calls the preview route makes: it rejects an empty form id before it registers
  (\<^verbatim>\<open>if (!formId || formId.trim() === '')\<close> answers 400).
\<close>

fun nonempty_form :: "watch_call \<Rightarrow> bool" where
  "nonempty_form (Register now connectionId formId) = (formId \<noteq> [])"
| "nonempty_form (Unregister connectionId) = True"

text \<open>
  The consistency of the indices: a connection is in a form's watcher set exactly when
  the reverse index maps it to that form, the union of the watcher sets is the key set of
  the reverse index, and no form is mapped to an empty set.
\<close>

definition indices_consistent :: "notifier \<Rightarrow> bool" where
  "indices_consistent n \<longleftrightarrow>
     (\<forall>c f. c \<in> set (getConnectionsByForm n f) \<longleftrightarrow> connectionForms n c = Some f) \<and>
     (\<Union>ws \<in> ran (formWatchers n). set ws) = dom (connectionForms n) \<and>
     (\<forall>f. formWatchers n f \<noteq> Some [])"

text \<open>The empty form id is watched by nobody.\<close>

definition no_empty_form :: "notifier \<Rightarrow> bool" where
  "no_empty_form n \<longleftrightarrow> formWatchers n [] = None \<and> (\<forall>c. connectionForms n c \<noteq> Some [])"

text \<open>
  The invariant the two operations keep when no empty form id is registered.
\<close>

definition watch_inv :: "notifier \<Rightarrow> bool" where
  "watch_inv n \<longleftrightarrow>
     (\<forall>c f. c \<in> set (getConnectionsByForm n f) \<longleftrightarrow> connectionForms n c = Some f) \<and>
     (\<forall>f. formWatchers n f \<noteq> Some []) \<and> no_empty_form n"

section \<open>Form Update Router: dispatch\<close>

text \<open>
  \<^verbatim>\<open>sendFormUpdateEvent\<close> and \<^verbatim>\<open>sendFormDeletedEvent\<close>: look the connection up in the
  registry, write the frame on its stream, and answer whether the write returned
  \<^verbatim>\<open>true\<close>; a write that throws is caught and answered \<^verbatim>\<open>false\<close>. Neither touches
  the registry. The second component is the write attempted, if any.
\<close>

definition sendFormUpdateEvent ::
  "sse_manager \<Rightarrow> string \<Rightarrow> string \<Rightarrow> nat \<Rightarrow> changeType
     \<Rightarrow> bool \<times> (string \<times> frame \<times> write_outcome) list" where
  "sendFormUpdateEvent mgr connectionId formId timestamp change =
     (case getConnectionInfo mgr connectionId of
        None \<Rightarrow> (False, [])
      | Some conn \<Rightarrow>
          let data = FormUpdateEvent formId timestamp change;
              outcome = res conn data
          in (outcome = WriteOk, [(connectionId, data, outcome)]))"

definition sendFormDeletedEvent ::
  "sse_manager \<Rightarrow> string \<Rightarrow> string \<Rightarrow> nat
     \<Rightarrow> bool \<times> (string \<times> frame \<times> write_outcome) list" where
  "sendFormDeletedEvent mgr connectionId formId timestamp =
     (case getConnectionInfo mgr connectionId of
        None \<Rightarrow> (False, [])
      | Some conn \<Rightarrow>
          let data = FormDeletedEvent formId timestamp;
              outcome = res conn data
          in (outcome = WriteOk, [(connectionId, data, outcome)]))"

text \<open>The local variables of the dispatch loop, and the writes it attempted.\<close>

record tally =
  successCount :: nat
  failureCount :: nat
  failedConnections :: "string list"
  deadConnections :: "string list"
  attempted :: "(string \<times> frame \<times> write_outcome) list"

definition empty_tally :: tally where
  "empty_tally = \<lparr> successCount = 0, failureCount = 0, failedConnections = [],
                    deadConnections = [], attempted = [] \<rparr>"

text \<open>
  The loop \<^verbatim>\<open>for (const connectionId of connectionIds)\<close> of \<^verbatim>\<open>sendNotification\<close>.
  Its \<^verbatim>\<open>catch\<close> branch has no counterpart: the two send functions catch what the
  write throws themselves.
\<close>

fun dispatch_loop ::
  "sse_manager \<Rightarrow> string \<Rightarrow> nat \<Rightarrow> changeType \<Rightarrow> string list \<Rightarrow> tally \<Rightarrow> tally" where
  "dispatch_loop mgr formId timestamp change [] acc = acc"
| "dispatch_loop mgr formId timestamp change (connectionId # rest) acc =
     (let (sent, ws) =
            (if change = Deleted
             then sendFormDeletedEvent mgr connectionId formId timestamp
             else sendFormUpdateEvent mgr connectionId formId timestamp change);
          acc1 = acc\<lparr> attempted := attempted acc @ ws \<rparr>;
          acc2 =
            (if sent then acc1\<lparr> successCount := successCount acc1 + 1 \<rparr>
             else acc1\<lparr> failureCount := failureCount acc1 + 1,
                        failedConnections := failedConnections acc1 @ [connectionId],
                        deadConnections :=
                          (if \<not> hasConnection mgr connectionId
                           then deadConnections acc1 @ [connectionId]
                           else deadConnections acc1) \<rparr>)
      in dispatch_loop mgr formId timestamp change rest acc2)"

text \<open>
  \<^verbatim>\<open>sendNotification\<close>; \<open>now\<close> is the clock reading of its first line. The form data
  is accepted and not used (\<^verbatim>\<open>_formData\<close>).
\<close>

definition sendNotification ::
  "nat \<Rightarrow> string \<Rightarrow> changeType \<Rightarrow> formio_form option \<Rightarrow> notifier \<Rightarrow> notifier" where
  "sendNotification now formId change formData n =
     (let n0 = n\<lparr> dispatched := dispatched n @ [(formId, change, formData)] \<rparr>;
          connectionIds = getConnectionsByForm n0 formId
      in if length connectionIds = 0 then n0
         else
           let t = dispatch_loop (sseManager n0) formId now change connectionIds empty_tally;
               n1 = n0\<lparr> written := written n0 @ attempted t \<rparr>
           in fold unregisterPreviewConnection (deadConnections t) n1)"

section \<open>Form Update Router: timers\<close>

text \<open>
  \<^verbatim>\<open>setTimeout\<close> and \<^verbatim>\<open>clearTimeout\<close> of the runtime, on the timer queue of the state.
  The runtime sets a delay below 1 ms or above 2147483647 ms (\<open>2^31 - 1\<close>) to 1 ms; a
  timer comes due that many milliseconds after it is set.
\<close>

definition timer_delay :: "nat \<Rightarrow> nat" where
  "timer_delay delay = (if delay < 1 \<or> 2147483647 < delay then 1 else delay)"

definition clearTimeout :: "nat \<Rightarrow> notifier \<Rightarrow> notifier" where
  "clearTimeout handle n = n\<lparr> timers := filter (\<lambda>t. timer_id t \<noteq> handle) (timers n) \<rparr>"

definition setTimeout ::
  "nat \<Rightarrow> nat \<Rightarrow> string \<Rightarrow> changeType \<Rightarrow> formio_form option \<Rightarrow> notifier \<Rightarrow> nat \<times> notifier" where
  "setTimeout now delay formId change formData n =
     (nextTimerId n,
      n\<lparr> timers := timers n @
            [\<lparr> timer_id = nextTimerId n, due = now + timer_delay delay, t_formId = formId,
               t_changeType = change, t_formData = formData \<rparr>],
         nextTimerId := Suc (nextTimerId n) \<rparr>)"

definition debounceNotification ::
  "nat \<Rightarrow> string \<Rightarrow> changeType \<Rightarrow> formio_form option \<Rightarrow> notifier \<Rightarrow> notifier" where
  "debounceNotification now formId change formData n =
     (let n1 = (case pendingNotifications n formId of
                  Some pending \<Rightarrow> clearTimeout pending n
                | None \<Rightarrow> n);
          (timeout, n2) = setTimeout now (debounceInterval n1) formId change formData n1
      in n2\<lparr> pendingNotifications := (pendingNotifications n2)(formId \<mapsto> timeout) \<rparr>)"

text \<open>The callback \<^verbatim>\<open>debounceNotification\<close> hands to \<^verbatim>\<open>setTimeout\<close>.\<close>

definition timer_callback :: "nat \<Rightarrow> timer \<Rightarrow> notifier \<Rightarrow> notifier" where
  "timer_callback now t n =
     (let n1 = sendNotification now (t_formId t) (t_changeType t) (t_formData t) n
      in n1\<lparr> pendingNotifications := (pendingNotifications n1)(t_formId t := None) \<rparr>)"

definition notifyFormUpdated :: "nat \<Rightarrow> string \<Rightarrow> formio_form option \<Rightarrow> notifier \<Rightarrow> notifier" where
  "notifyFormUpdated now formId formData n = debounceNotification now formId Updated formData n"

definition notifyFormCreated :: "nat \<Rightarrow> string \<Rightarrow> formio_form option \<Rightarrow> notifier \<Rightarrow> notifier" where
  "notifyFormCreated now formId formData n = sendNotification now formId Created formData n"

text \<open>
  \<^verbatim>\<open>notifyFormDeleted\<close>: dispatch, clear the pending timer of the form, then unregister
  from the router every remaining watcher that the registry still knows. It calls no
  operation of the registry that removes a connection.
\<close>

definition notifyFormDeleted :: "nat \<Rightarrow> string \<Rightarrow> notifier \<Rightarrow> notifier" where
  "notifyFormDeleted now formId n =
     (let n1 = sendNotification now formId Deleted None n;
          n2 = (case pendingNotifications n1 formId of
                  Some pending \<Rightarrow>
                    (clearTimeout pending n1)
                      \<lparr> pendingNotifications := (pendingNotifications n1)(formId := None) \<rparr>
                | None \<Rightarrow> n1);
          connectionIds = getConnectionsByForm n2 formId
      in fold (\<lambda>connectionId m.
                 case getConnectionInfo (sseManager m) connectionId of
                   Some conn \<Rightarrow> unregisterPreviewConnection connectionId m
                 | None \<Rightarrow> m)
              connectionIds n2)"

text \<open>
  The event loop: the timer that comes due first (the one set first among equals), and
  the run of every timer due by time \<open>T\<close>, each at its due time.
\<close>

fun earliest :: "timer list \<Rightarrow> timer option" where
  "earliest [] = None"
| "earliest (t # ts) =
     (case earliest ts of
        None \<Rightarrow> Some t
      | Some u \<Rightarrow> if due u < due t then Some u else Some t)"

function run_until :: "nat \<Rightarrow> notifier \<Rightarrow> notifier" where
  "run_until T n =
     (case earliest (timers n) of
        None \<Rightarrow> n
      | Some t \<Rightarrow>
          if due t \<le> T
          then run_until T (timer_callback (due t) t (n\<lparr> timers := remove1 t (timers n) \<rparr>))
          else n)"
  by pat_completeness auto
termination
proof (relation "measure (\<lambda>(T, n). length (timers n))")
  show "wf (measure (\<lambda>(T, n). length (timers n)))"
    by simp
next
  fix T :: nat and n :: notifier and t :: timer
  assume e: "earliest (timers n) = Some t"
  have unreg: "timers (unregisterPreviewConnection c m) = timers m" for c m
    by (simp add: unregisterPreviewConnection_def Let_def split: option.splits)
  have folded: "timers (fold unregisterPreviewConnection cs m) = timers m" for cs m
    by (induction cs arbitrary: m) (simp_all add: unreg)
  have kept: "timers (timer_callback now t m) = timers m" for now m
    by (simp add: timer_callback_def sendNotification_def Let_def folded)
  have mem: "earliest ts = Some u \<Longrightarrow> u \<in> set ts" for ts u
    by (induction ts arbitrary: u) (auto split: option.splits if_splits)
  have "t \<in> set (timers n)"
    using e by (rule mem)
  then have "length (remove1 t (timers n)) < length (timers n)"
    using length_pos_if_in_set [of t "timers n"] by (simp add: length_remove1)
  then show "((T, timer_callback (due t) t (n\<lparr> timers := remove1 t (timers n) \<rparr>)), (T, n))
               \<in> measure (\<lambda>(T, n). length (timers n))"
    by (simp add: kept)
qed

declare run_until.simps [simp del]





definition timers_for :: "string \<Rightarrow> notifier \<Rightarrow> timer list" where
  "timers_for formId n = filter (\<lambda>t. t_formId t = formId) (timers n)"

text \<open>
  Every timer in the queue is the one its form's slot of \<^verbatim>\<open>pendingNotifications\<close>
  holds, as \<^verbatim>\<open>debounceNotification\<close> leaves it.
\<close>

definition timers_tracked :: "notifier \<Rightarrow> bool" where
  "timers_tracked n \<longleftrightarrow>
     (\<forall>t \<in> set (timers n). pendingNotifications n (t_formId t) = Some (timer_id t))"

text \<open>
  The state of the queue that every operation of the router keeps: every timer is tracked
  and no form has two timers.
\<close>

definition timers_ok :: "notifier \<Rightarrow> bool" where
  "timers_ok n \<longleftrightarrow> timers_tracked n \<and> distinct (map t_formId (timers n))"

section \<open>RPC Dispatch Bridge\<close>

text \<open>JSON values, for request parameters and tool arguments; numbers are integers.\<close>

datatype json =
    JNull
  | JBool bool
  | JNum int
  | JStr string
  | JArr "json list"
  | JObj "(string \<times> json) list"

text \<open>
  The id of a JSON-RPC message: a number, a string or \<^verbatim>\<open>null\<close>; a message without an
  id has \<open>None\<close>.
\<close>

datatype request_id = IdNum int | IdStr string | IdNull

record jsonrpc_message =
  msg_id :: "request_id option"
  msg_method :: "string option"
  msg_params :: "json option"

record jsonrpc_error =
  code :: int
  message :: string

record jsonrpc_response =
  jsonrpc :: string
  resp_id :: "request_id option"
  result :: "json option"
  error :: "jsonrpc_error option"

text \<open>
  What a handler or the bridge can throw: an \<^verbatim>\<open>Error\<close> object with its message, or any
  other value. A handler either returns a response or throws.
\<close>

datatype thrown = ErrorObject string | OtherValue json

type_synonym handler = "jsonrpc_message \<Rightarrow> thrown + jsonrpc_response"

text \<open>\<^verbatim>\<open>(message as any).id || null\<close>: the id when it is truthy, \<^verbatim>\<open>null\<close> otherwise.\<close>

fun id_or_null :: "request_id option \<Rightarrow> request_id" where
  "id_or_null (Some (IdNum k)) = (if k = 0 then IdNull else IdNum k)"
| "id_or_null (Some (IdStr s)) = (if s = [] then IdNull else IdStr s)"
| "id_or_null (Some IdNull) = IdNull"
| "id_or_null None = IdNull"

text \<open>The \<^verbatim>\<open>try\<close> block of \<^verbatim>\<open>handleRequestSync\<close>: \<open>Inl\<close> is what it throws.\<close>

definition handleRequestSync_try ::
  "(string \<rightharpoonup> handler) \<Rightarrow> jsonrpc_message \<Rightarrow> thrown + jsonrpc_response" where
  "handleRequestSync_try messageHandlers msg =
     (case msg_method msg of
        None \<Rightarrow> Inl (ErrorObject ''Invalid JSON-RPC message: missing method'')
      | Some m \<Rightarrow>
          (case messageHandlers m of
             None \<Rightarrow>
               Inr \<lparr> jsonrpc = ''2.0'', resp_id = msg_id msg, result = None,
                     error = Some \<lparr> code = - 32601, message = ''Method not found: '' @ m \<rparr> \<rparr>
           | Some h \<Rightarrow> h msg))"

text \<open>
  \<^verbatim>\<open>handleRequestSync\<close>: the \<^verbatim>\<open>try\<close> block and its \<^verbatim>\<open>catch\<close>. The result is
  \<open>Inl\<close> when the function itself throws.
\<close>

definition handleRequestSync ::
  "(string \<rightharpoonup> handler) \<Rightarrow> jsonrpc_message \<Rightarrow> thrown + jsonrpc_response" where
  "handleRequestSync messageHandlers msg =
     (case handleRequestSync_try messageHandlers msg of
        Inr response \<Rightarrow> Inr response
      | Inl err \<Rightarrow>
          Inr \<lparr> jsonrpc = ''2.0'', resp_id = Some (id_or_null (msg_id msg)), result = None,
                error = Some \<lparr> code = - 32603,
                               message = (case err of
                                            ErrorObject m \<Rightarrow> m
                                          | OtherValue v \<Rightarrow> ''Internal error'') \<rparr> \<rparr>)"

section \<open>Tool handlers\<close>

text \<open>
  What a tool handler throws: an \<^verbatim>\<open>Error\<close> with its message, or a \<^verbatim>\<open>TypeError\<close> of the
  runtime.
\<close>

datatype tool_error = Error string | TypeError

text \<open>
  The form data \<^verbatim>\<open>create_form\<close> hands to the forms API, and the client of that API
  (\<^verbatim>\<open>FormioClient\<close>, an external collaborator): each operation answers a form or throws.
  An argument read from \<^verbatim>\<open>args\<close> without a check is a JSON value or \<open>None\<close> for
  \<^verbatim>\<open>undefined\<close>.
\<close>

record form_data =
  fd_title :: string
  fd_name :: "json option"
  fd_path :: string
  fd_components :: "json option"
  fd_display :: json
  fd_type :: json

record formio_client =
  getForm :: "json option \<Rightarrow> tool_error + formio_form"
  createForm :: "form_data \<Rightarrow> tool_error + formio_form"
  updateForm :: "json option \<Rightarrow> json option \<Rightarrow> tool_error + formio_form"
  deleteForm :: "json option \<Rightarrow> tool_error + unit"

text \<open>The calls a tool made on the forms API, in order, and what a tool answers.\<close>

datatype api_call =
    GetForm "json option"
  | CreateForm form_data
  | UpdateForm "json option" "json option"
  | DeleteForm "json option"

datatype tool_result =
    FormCreated formio_form
  | FormUpdated formio_form
  | FormDeleted "json option"

definition MCP_PATH_PREFIX :: string where
  "MCP_PATH_PREFIX = ''mcp-''"

definition MCP_TITLE_PREFIX :: string where
  "MCP_TITLE_PREFIX = ''[MCP] ''"

text \<open>
  \<^verbatim>\<open>isMCPForm\<close>: \<^verbatim>\<open>form.path?.startsWith(..) || form.title?.startsWith(..)\<close>; an
  absent field gives \<^verbatim>\<open>undefined\<close>, which is falsy.
\<close>

definition isMCPForm :: "formio_form \<Rightarrow> bool" where
  "isMCPForm form =
     ((case path form of Some p \<Rightarrow> prefix MCP_PATH_PREFIX p | None \<Rightarrow> False) \<or>
      (case title form of Some t \<Rightarrow> prefix MCP_TITLE_PREFIX t | None \<Rightarrow> False))"

text \<open>
  The text of \<^verbatim>\<open>form.title || form.name\<close> inside the template string of the error
  message.
\<close>

definition title_or_name :: "formio_form \<Rightarrow> string" where
  "title_or_name form =
     (case title form of
        Some t \<Rightarrow> if truthy t then t
                  else (case name form of Some m \<Rightarrow> m | None \<Rightarrow> ''undefined'')
      | None \<Rightarrow> (case name form of Some m \<Rightarrow> m | None \<Rightarrow> ''undefined''))"

definition validateMCPOwnership :: "formio_form \<Rightarrow> string \<Rightarrow> tool_error + unit" where
  "validateMCPOwnership form operation =
     (if \<not> isMCPForm form
      then Inl (Error (''Cannot '' @ operation @ '' form '' @ [CHR 0x22] @ title_or_name form
                 @ [CHR 0x22] @ '': This form was not created by MCP. ''
                 @ ''MCP can only '' @ operation @ '' forms it created (prefixed with ''
                 @ [CHR 0x22] @ MCP_TITLE_PREFIX @ [CHR 0x22] @ '' or path starting with ''
                 @ [CHR 0x22] @ MCP_PATH_PREFIX @ [CHR 0x22] @ '').''))
      else Inr ())"

text \<open>The \<^verbatim>\<open>update_form\<close> and \<^verbatim>\<open>delete_form\<close> cases of \<^verbatim>\<open>executeToolCall\<close>.\<close>

definition update_form ::
  "formio_client \<Rightarrow> (string \<times> json) list \<Rightarrow> api_call list \<times> (tool_error + tool_result)" where
  "update_form client args =
     (let formId = map_of args ''formId''; updates = map_of args ''updates''
      in case getForm client formId of
           Inl e \<Rightarrow> ([GetForm formId], Inl e)
         | Inr existingForm \<Rightarrow>
             (case validateMCPOwnership existingForm ''update'' of
                Inl e \<Rightarrow> ([GetForm formId], Inl e)
              | Inr u \<Rightarrow>
                  (case updateForm client formId updates of
                     Inl e \<Rightarrow> ([GetForm formId, UpdateForm formId updates], Inl e)
                   | Inr updatedForm \<Rightarrow>
                       ([GetForm formId, UpdateForm formId updates],
                        Inr (FormUpdated updatedForm)))))"

definition delete_form ::
  "formio_client \<Rightarrow> (string \<times> json) list \<Rightarrow> api_call list \<times> (tool_error + tool_result)" where
  "delete_form client args =
     (let formId = map_of args ''formId''
      in case getForm client formId of
           Inl e \<Rightarrow> ([GetForm formId], Inl e)
         | Inr existingForm \<Rightarrow>
             (case validateMCPOwnership existingForm ''delete'' of
                Inl e \<Rightarrow> ([GetForm formId], Inl e)
              | Inr u \<Rightarrow>
                  (case deleteForm client formId of
                     Inl e \<Rightarrow> ([GetForm formId, DeleteForm formId], Inl e)
                   | Inr v \<Rightarrow> ([GetForm formId, DeleteForm formId], Inr (FormDeleted formId)))))"

text \<open>
  The path normalisation of \<^verbatim>\<open>create_form\<close>:
  \<^verbatim>\<open>path.toLowerCase().replace(/[^a-z0-9\-\/]/g, '').replace(/^[\-\/]+|[\-\/]+$/g, '')\<close>.
  Strings here are lists of 8-bit characters; lower-casing acts on the letters A to Z, and
  every other character that is not kept is deleted by the first replacement.
\<close>

definition toLowerCase :: "string \<Rightarrow> string" where
  "toLowerCase s =
     map (\<lambda>c. case map_of (zip ''ABCDEFGHIJKLMNOPQRSTUVWXYZ'' ''abcdefghijklmnopqrstuvwxyz'') c of
                Some l \<Rightarrow> l
              | None \<Rightarrow> c) s"

definition path_char :: "char \<Rightarrow> bool" where
  "path_char c \<longleftrightarrow> c \<in> set ''abcdefghijklmnopqrstuvwxyz0123456789-/''"

definition separator :: "char \<Rightarrow> bool" where
  "separator c \<longleftrightarrow> c = CHR ''-'' \<or> c = CHR ''/''"

definition normalize_path :: "string \<Rightarrow> string" where
  "normalize_path p =
     rev (dropWhile separator (rev (dropWhile separator (filter path_char (toLowerCase p)))))"

text \<open>JavaScript truthiness of a value read from \<^verbatim>\<open>args\<close>.\<close>

fun truthy_json :: "json option \<Rightarrow> bool" where
  "truthy_json None = False"
| "truthy_json (Some JNull) = False"
| "truthy_json (Some (JBool b)) = b"
| "truthy_json (Some (JNum k)) = (k \<noteq> 0)"
| "truthy_json (Some (JStr s)) = (s \<noteq> [])"
| "truthy_json (Some (JArr xs)) = True"
| "truthy_json (Some (JObj kvs)) = True"

definition or_default :: "json option \<Rightarrow> json \<Rightarrow> json" where
  "or_default v d = (case v of Some x \<Rightarrow> if truthy_json v then x else d | None \<Rightarrow> d)"

text \<open>
  The \<^verbatim>\<open>create_form\<close> case of \<^verbatim>\<open>executeToolCall\<close>. \<^verbatim>\<open>args.title as string\<close> and
  \<^verbatim>\<open>args.path as string\<close> are unchecked casts: calling \<^verbatim>\<open>toLowerCase\<close> or
  \<^verbatim>\<open>startsWith\<close> on a value that is not a string throws a \<^verbatim>\<open>TypeError\<close>.
\<close>

definition create_form ::
  "formio_client \<Rightarrow> (string \<times> json) list \<Rightarrow> api_call list \<times> (tool_error + tool_result)" where
  "create_form client args =
     (case map_of args ''path'' of
        Some (JStr rawPath) \<Rightarrow>
          (let p = normalize_path rawPath
           in if \<not> truthy p
              then ([], Inl (Error (''Invalid path: after normalization, path is empty. ''
                                     @ ''Path must contain letters or numbers.'')))
              else
                (case (case map_of args ''components'' of
                         Some (JArr xs) \<Rightarrow> Inr (Some (JArr xs))
                       | Some (JObj kvs) \<Rightarrow>
                           (if ''components'' \<in> fst ` set kvs
                            then Inr (map_of kvs ''components'')
                            else Inl (Error (''Invalid components parameter: ''
                                              @ ''must be an array of component objects'')))
                       | _ \<Rightarrow> Inl (Error (''Invalid components parameter: ''
                                             @ ''must be an array of component objects''))) of
                   Inl e \<Rightarrow> ([], Inl e)
                 | Inr components \<Rightarrow>
                     (case map_of args ''title'' of
                        Some (JStr t) \<Rightarrow>
                          (let mcpTitle = (if prefix MCP_TITLE_PREFIX t then t
                                           else MCP_TITLE_PREFIX @ t);
                               mcpPath = (if prefix MCP_PATH_PREFIX p then p
                                          else MCP_PATH_PREFIX @ p);
                               formData = \<lparr> fd_title = mcpTitle,
                                            fd_name = map_of args ''name'',
                                            fd_path = mcpPath,
                                            fd_components = components,
                                            fd_display = or_default (map_of args ''display'') (JStr ''form''),
                                            fd_type = or_default (map_of args ''type'') (JStr ''form'') \<rparr>
                           in case createForm client formData of
                                Inl e \<Rightarrow> ([CreateForm formData], Inl e)
                              | Inr createdForm \<Rightarrow>
                                  ([CreateForm formData], Inr (FormCreated createdForm)))
                      | _ \<Rightarrow> ([], Inl TypeError))))
      | _ \<Rightarrow> ([], Inl TypeError))"

text \<open>The form a forms API stores when it keeps the title and path it was sent.\<close>

definition stored_form :: "string option \<Rightarrow> form_data \<Rightarrow> formio_form" where
  "stored_form i fd =
     \<lparr> form_id = i, title = Some (fd_title fd),
       name = (case fd_name fd of Some (JStr s) \<Rightarrow> Some s | _ \<Rightarrow> None),
       path = Some (fd_path fd) \<rparr>"

text \<open>A forms API that holds one form and accepts every call.\<close>

definition single_form_client :: "formio_form \<Rightarrow> formio_client" where
  "single_form_client form =
     \<lparr> getForm = (\<lambda>i. Inr form),
       createForm = (\<lambda>fd. Inr (stored_form (Some ''1'') fd)),
       updateForm = (\<lambda>i u. Inr form),
       deleteForm = (\<lambda>i. Inr ()) \<rparr>"

section \<open>Notions used to state the properties of the router\<close>

text \<open>The frame a dispatch writes, and the write a dispatch attempts on one connection.\<close>

definition event_frame :: "string \<Rightarrow> nat \<Rightarrow> changeType \<Rightarrow> frame" where
  "event_frame formId timestamp change =
     (if change = Deleted then FormDeletedEvent formId timestamp
      else FormUpdateEvent formId timestamp change)"

definition write_of ::
  "sse_manager \<Rightarrow> frame \<Rightarrow> string \<Rightarrow> (string \<times> frame \<times> write_outcome) list" where
  "write_of mgr fr c =
     (case connections mgr c of None \<Rightarrow> [] | Some conn \<Rightarrow> [(c, fr, res conn fr)])"

text \<open>The block of \<^verbatim>\<open>notifyFormDeleted\<close> that clears the pending timer of the form.\<close>

definition cancel_pending :: "string \<Rightarrow> notifier \<Rightarrow> notifier" where
  "cancel_pending formId n1 =
     (case pendingNotifications n1 formId of
        Some pending \<Rightarrow>
          (clearTimeout pending n1)
            \<lparr> pendingNotifications := (pendingNotifications n1)(formId := None) \<rparr>
      | None \<Rightarrow> n1)"


text \<open>
  A connection whose stream answers every write alike, and the state in which the
  connections \<open>c1\<close> and \<open>c2\<close> watch the form \<open>f1\<close>, for a given registry.
\<close>

definition stream_conn :: "string \<Rightarrow> write_outcome \<Rightarrow> sse_connection" where
  "stream_conn c outcome =
     \<lparr> conn_id = c, res = (\<lambda>fr. outcome), connectedAt = 0, lastHeartbeat = 0,
       clientInfo = None \<rparr>"

definition watching_f1 :: "sse_manager \<Rightarrow> notifier" where
  "watching_f1 mgr =
     registerPreviewConnection 2 ''c2'' ''f1''
       (registerPreviewConnection 1 ''c1'' ''f1'' (new_notifier mgr 500))"

section \<open>Properties of the watch indices\<close>

lemma set_delete_set [simp]: "set (set_delete x xs) = set xs - {x}"
  by (auto simp: set_delete_def)

lemma set_add_set [simp]: "set (set_add x xs) = insert x (set xs)"
  by (auto simp: set_add_def)

lemma mem_watchers:
  "c \<in> set (getConnectionsByForm n f) \<longleftrightarrow> (\<exists>ws. formWatchers n f = Some ws \<and> c \<in> set ws)"
  by (cases "formWatchers n f") (simp_all add: getConnectionsByForm_def)

lemma new_notifier_watchers: "getConnectionsByForm (new_notifier mgr d) f = []"
  by (simp add: getConnectionsByForm_def new_notifier_def)

lemma new_notifier_connectionForms: "connectionForms (new_notifier mgr d) = Map.empty"
  by (simp add: new_notifier_def)

subsection \<open>What the two operations do to the indices\<close>

lemma unregister_connectionForms:
  "connectionForms (unregisterPreviewConnection c n) =
     (case connectionForms n c of
        None \<Rightarrow> connectionForms n
      | Some g \<Rightarrow> if g = [] then connectionForms n else (connectionForms n)(c := None))"
  by (simp add: unregisterPreviewConnection_def truthy_def Let_def split: option.splits)

lemma unregister_watchers:
  "getConnectionsByForm (unregisterPreviewConnection c n) f =
     (if connectionForms n c = Some f \<and> f \<noteq> []
      then removeAll c (getConnectionsByForm n f) else getConnectionsByForm n f)"
  by (simp add: unregisterPreviewConnection_def getConnectionsByForm_def truthy_def
      set_delete_def Let_def split: option.splits)

lemma unregister_no_empty_set:
  "\<forall>f. formWatchers n f \<noteq> Some [] \<Longrightarrow>
   formWatchers (unregisterPreviewConnection c n) f \<noteq> Some []"
  by (simp add: unregisterPreviewConnection_def truthy_def Let_def split: option.splits)

lemma unregister_empty_form:
  "formWatchers n [] = None \<Longrightarrow> formWatchers (unregisterPreviewConnection c n) [] = None"
  by (simp add: unregisterPreviewConnection_def truthy_def Let_def split: option.splits)

lemma register_connectionForms:
  "connectionForms (registerPreviewConnection t c f n) = (connectionForms n)(c \<mapsto> f)"
  by (auto simp: registerPreviewConnection_def Let_def unregister_connectionForms
      split: option.splits)

lemma register_watchers:
  "getConnectionsByForm (registerPreviewConnection t c f n) g =
     (if connectionForms n c = Some f \<and> f \<noteq> [] then getConnectionsByForm n g
      else if g = f then set_add c (getConnectionsByForm (unregisterPreviewConnection c n) g)
      else getConnectionsByForm (unregisterPreviewConnection c n) g)"
  by (auto simp: registerPreviewConnection_def Let_def getConnectionsByForm_def truthy_def
      unregisterPreviewConnection_def split: option.splits)

lemma register_no_empty_set:
  "\<forall>f. formWatchers n f \<noteq> Some [] \<Longrightarrow>
   formWatchers (registerPreviewConnection t c f n) g \<noteq> Some []"
  by (auto simp: registerPreviewConnection_def Let_def unregister_no_empty_set set_add_def
      split: option.splits)

lemma register_empty_form:
  "formWatchers n [] = None \<Longrightarrow> f \<noteq> [] \<Longrightarrow>
   formWatchers (registerPreviewConnection t c f n) [] = None"
  by (auto simp: registerPreviewConnection_def Let_def unregister_empty_form
      split: option.splits)

subsection \<open>The invariant\<close>

lemma watch_inv_new: "watch_inv (new_notifier mgr d)"
  by (simp add: watch_inv_def new_notifier_def no_empty_form_def getConnectionsByForm_def)

lemma watch_inv_unregister:
  assumes "watch_inv n"
  shows "watch_inv (unregisterPreviewConnection c n)"
  using assms
  unfolding watch_inv_def no_empty_form_def
  by (auto simp: unregister_connectionForms unregister_watchers unregister_no_empty_set
      unregister_empty_form split: option.splits if_splits)

lemma watch_inv_register:
  assumes "watch_inv n" and "f \<noteq> []"
  shows "watch_inv (registerPreviewConnection t c f n)"
  using assms
  unfolding watch_inv_def no_empty_form_def
  by (auto simp: register_connectionForms register_watchers register_no_empty_set
      register_empty_form unregister_watchers split: option.splits if_splits)

lemma watch_inv_run:
  "watch_inv n \<Longrightarrow> list_all nonempty_form calls \<Longrightarrow> watch_inv (run_calls calls n)"
proof (induction calls arbitrary: n)
  case Nil
  then show ?case by simp
next
  case (Cons a calls)
  have "watch_inv (apply_call a n)"
    using Cons.prems by (cases a) (simp_all add: watch_inv_register watch_inv_unregister)
  with Cons show ?case by simp
qed

lemma watch_inv_consistent:
  assumes "watch_inv n"
  shows "indices_consistent n"
proof -
  have a: "\<And>c f. c \<in> set (getConnectionsByForm n f) \<longleftrightarrow> connectionForms n c = Some f"
    using assms by (simp add: watch_inv_def)
  have "(\<Union>ws \<in> ran (formWatchers n). set ws) = dom (connectionForms n)"
  proof (rule set_eqI)
    fix c
    have "c \<in> (\<Union>ws \<in> ran (formWatchers n). set ws)
            \<longleftrightarrow> (\<exists>f. c \<in> set (getConnectionsByForm n f))"
      unfolding mem_watchers ran_def by blast
    also have "\<dots> \<longleftrightarrow> c \<in> dom (connectionForms n)"
      by (auto simp: a)
    finally show "c \<in> (\<Union>ws \<in> ran (formWatchers n). set ws)
                    \<longleftrightarrow> c \<in> dom (connectionForms n)" .
  qed
  then show ?thesis
    using assms by (simp add: watch_inv_def indices_consistent_def)
qed

text \<open>
  Claim C1. For every sequence of \<^verbatim>\<open>registerPreviewConnection\<close> and
  \<^verbatim>\<open>unregisterPreviewConnection\<close> calls of the program, run from the empty state, the
  indices are consistent: a connection is in a form's watcher set exactly when the reverse
  index maps it to that form, the union of the watcher sets is the key set of the reverse
  index, and no form id is mapped to an empty set. The calls of the program register no
  empty form id: the preview route, the only caller of \<^verbatim>\<open>registerPreviewConnection\<close>,
  answers 400 to an empty form id before it registers.
\<close>

theorem indices_stay_consistent:
  "list_all nonempty_form calls \<Longrightarrow>
   indices_consistent (run_calls calls (new_notifier mgr interval))"
  by (rule watch_inv_consistent, rule watch_inv_run, rule watch_inv_new)

text \<open>The theorem at a sequence that registers, moves and unregisters watches.\<close>

theorem indices_stay_consistent_witness:
  "list_all nonempty_form
     [Register 0 ''c1'' ''f1'', Register 5 ''c2'' ''f1'', Register 7 ''c1'' ''f2'',
      Unregister ''c2''] \<and>
   indices_consistent
     (run_calls
        [Register 0 ''c1'' ''f1'', Register 5 ''c2'' ''f1'', Register 7 ''c1'' ''f2'',
         Unregister ''c2'']
        (new_notifier \<lparr> connections = Map.empty \<rparr> 500))"
proof -
  have h: "list_all nonempty_form
     [Register 0 ''c1'' ''f1'', Register 5 ''c2'' ''f1'', Register 7 ''c1'' ''f2'',
      Unregister ''c2'']"
    by simp
  show ?thesis
    using h indices_stay_consistent [OF h, of "\<lparr> connections = Map.empty \<rparr>" 500]
    by blast
qed

text \<open>
  The guard of the route is needed: the router tests the form id it looks up for
  truthiness, so it does not see a watch of the empty form id, and a connection registered
  for the empty form id and then for another form is left in the watcher set of the first.
\<close>

lemma empty_form_id_not_seen:
  "\<not> indices_consistent
        (run_calls [Register 0 ''c1'' [], Register 1 ''c1'' ''f1'']
           (new_notifier \<lparr> connections = Map.empty \<rparr> 500))"
proof
  assume "indices_consistent
            (run_calls [Register 0 ''c1'' [], Register 1 ''c1'' ''f1'']
               (new_notifier \<lparr> connections = Map.empty \<rparr> 500))"
  then have
    "''c1'' \<in> set (getConnectionsByForm
                      (run_calls [Register 0 ''c1'' [], Register 1 ''c1'' ''f1'']
                         (new_notifier \<lparr> connections = Map.empty \<rparr> 500)) [])
     \<longleftrightarrow> connectionForms
            (run_calls [Register 0 ''c1'' [], Register 1 ''c1'' ''f1'']
               (new_notifier \<lparr> connections = Map.empty \<rparr> 500)) ''c1'' = Some []"
    unfolding indices_consistent_def by blast
  then show False
    by (simp add: register_connectionForms register_watchers unregister_watchers
        new_notifier_watchers new_notifier_connectionForms)
qed

subsection \<open>Registering again\<close>

lemma register_puts_watcher:
  "\<not> (connectionForms n c = Some f \<and> f \<noteq> []) \<Longrightarrow>
   \<exists>ws. formWatchers (registerPreviewConnection t c f n) f = Some ws \<and> c \<in> set ws"
  by (auto simp: registerPreviewConnection_def Let_def truthy_def split: option.splits)

lemma reregister_activity:
  "registerPreviewConnection t2 c f (registerPreviewConnection t1 c f n) =
   (registerPreviewConnection t1 c f n)\<lparr> connectionActivity :=
       (connectionActivity (registerPreviewConnection t1 c f n))(c \<mapsto> t2) \<rparr>"
proof -
  define n' where "n' = registerPreviewConnection t1 c f n"
  have cf: "connectionForms n' c = Some f"
    by (simp add: n'_def register_connectionForms)
  show ?thesis
  proof (cases "f = []")
    case False
    then show ?thesis
      unfolding n'_def [symmetric]
      by (simp add: registerPreviewConnection_def [of t2 c f n'] cf truthy_def)
  next
    case True
    then obtain ws where ws: "formWatchers n' f = Some ws" "c \<in> set ws"
      using register_puts_watcher [of n c f t1] by (auto simp: n'_def)
    have 1: "(formWatchers n')(f \<mapsto> ws) = formWatchers n'"
      using ws(1) by (rule map_upd_triv)
    have 2: "(connectionForms n')(c \<mapsto> f) = connectionForms n'"
      using cf by (rule map_upd_triv)
    show ?thesis
      unfolding n'_def [symmetric]
      using True ws cf 1 2
      by (simp add: registerPreviewConnection_def [of t2 c _ n'] truthy_def set_add_def)
  qed
qed

lemma register_then_stamp:
  "(registerPreviewConnection t1 c f n)\<lparr> connectionActivity :=
       (connectionActivity (registerPreviewConnection t1 c f n))(c \<mapsto> t2) \<rparr>
   = registerPreviewConnection t2 c f n"
  by (auto simp: registerPreviewConnection_def Let_def split: option.splits)

text \<open>
  Claim C6. For a connection \<open>c1\<close> registered for the form \<open>f1\<close>,
  \<^verbatim>\<open>registerPreviewConnection(c1, f2)\<close> with \<open>f2 \<noteq> f1\<close> moves the watch: afterwards
  \<^verbatim>\<open>getFormByConnection(c1)\<close> is \<open>f2\<close> and \<^verbatim>\<open>getConnectionsByForm(f1)\<close> does not
  contain \<open>c1\<close>. This holds for every form id the program registers (none is empty), and
  so for the ids \<^verbatim>\<open>"f1"\<close> and \<^verbatim>\<open>"f2"\<close> of the claim, from every state. Registering a
  connection for one form twice gives the state of registering it once, with the activity
  timestamp of the second call.
\<close>

theorem reregister_moves_watch:
  "(getFormByConnection n c1 = Some f1 \<and> f1 \<noteq> [] \<and> f2 \<noteq> f1 \<longrightarrow>
      getFormByConnection (registerPreviewConnection t c1 f2 n) c1 = Some f2 \<and>
      c1 \<notin> set (getConnectionsByForm (registerPreviewConnection t c1 f2 n) f1)) \<and>
   registerPreviewConnection t2 c1 f2 (registerPreviewConnection t c1 f2 n) =
     (registerPreviewConnection t c1 f2 n)\<lparr> connectionActivity :=
        (connectionActivity (registerPreviewConnection t c1 f2 n))(c1 \<mapsto> t2) \<rparr> \<and>
   registerPreviewConnection t2 c1 f2 (registerPreviewConnection t c1 f2 n) =
     registerPreviewConnection t2 c1 f2 n \<and>
   (getFormByConnection n c1 = Some ''f1'' \<longrightarrow>
      getFormByConnection (registerPreviewConnection t c1 ''f2'' n) c1 = Some ''f2'' \<and>
      c1 \<notin> set (getConnectionsByForm (registerPreviewConnection t c1 ''f2'' n) ''f1''))"
proof -
  have there: "getFormByConnection (registerPreviewConnection t c1 b n) c1 = Some b" for b
    by (simp add: getFormByConnection_def register_connectionForms)
  have gone: "c1 \<notin> set (getConnectionsByForm (registerPreviewConnection t c1 b n) a)"
    if "getFormByConnection n c1 = Some a" "a \<noteq> []" "b \<noteq> a" for a b
    using that by (simp add: getFormByConnection_def register_watchers unregister_watchers)
  have general: "getFormByConnection n c1 = Some f1 \<and> f1 \<noteq> [] \<and> f2 \<noteq> f1 \<longrightarrow>
      getFormByConnection (registerPreviewConnection t c1 f2 n) c1 = Some f2 \<and>
      c1 \<notin> set (getConnectionsByForm (registerPreviewConnection t c1 f2 n) f1)"
    using there [of f2] gone [of f1 f2] by blast
  have named: "getFormByConnection n c1 = Some ''f1'' \<longrightarrow>
      getFormByConnection (registerPreviewConnection t c1 ''f2'' n) c1 = Some ''f2'' \<and>
      c1 \<notin> set (getConnectionsByForm (registerPreviewConnection t c1 ''f2'' n) ''f1'')"
    using there [of "''f2''"] gone [of "''f1''" "''f2''"] by simp
  have stamp: "registerPreviewConnection t2 c1 f2 (registerPreviewConnection t c1 f2 n) =
     (registerPreviewConnection t c1 f2 n)\<lparr> connectionActivity :=
        (connectionActivity (registerPreviewConnection t c1 f2 n))(c1 \<mapsto> t2) \<rparr>"
    by (rule reregister_activity)
  have once: "registerPreviewConnection t2 c1 f2 (registerPreviewConnection t c1 f2 n) =
     registerPreviewConnection t2 c1 f2 n"
    using stamp register_then_stamp [of t c1 f2 n t2] by (rule trans)
  from general stamp once named show ?thesis
    by (intro conjI)
qed

text \<open>
  The theorem at the scenario of the specification: \<open>c1\<close> registered for \<open>f1\<close>, then for
  \<open>f2\<close>.
\<close>

theorem reregister_moves_watch_witness:
  "getFormByConnection
     (registerPreviewConnection 0 ''c1'' ''f1'' (new_notifier \<lparr> connections = Map.empty \<rparr> 500))
     ''c1'' = Some ''f1'' \<and> ''f1'' \<noteq> [] \<and> ''f2'' \<noteq> ''f1'' \<and>
   getFormByConnection
     (registerPreviewConnection 3 ''c1'' ''f2''
        (registerPreviewConnection 0 ''c1'' ''f1''
           (new_notifier \<lparr> connections = Map.empty \<rparr> 500))) ''c1'' = Some ''f2'' \<and>
   ''c1'' \<notin> set (getConnectionsByForm
     (registerPreviewConnection 3 ''c1'' ''f2''
        (registerPreviewConnection 0 ''c1'' ''f1''
           (new_notifier \<lparr> connections = Map.empty \<rparr> 500))) ''f1'')"
proof -
  have h: "getFormByConnection
     (registerPreviewConnection 0 ''c1'' ''f1'' (new_notifier \<lparr> connections = Map.empty \<rparr> 500))
     ''c1'' = Some ''f1'' \<and> ''f1'' \<noteq> [] \<and> ''f2'' \<noteq> ''f1''"
    by (simp add: getFormByConnection_def register_connectionForms)
  show ?thesis
    using h reregister_moves_watch
      [of "registerPreviewConnection 0 ''c1'' ''f1''
             (new_notifier \<lparr> connections = Map.empty \<rparr> 500)"
          "''c1''" "''f1''" "''f2''" 3 9]
    by blast
qed

section \<open>Properties of the RPC Dispatch Bridge\<close>

text \<open>
  Claim C7, as amended. \<^verbatim>\<open>handleRequestSync\<close> always returns a response and never throws. For a
  message whose method has no registered handler the response is an error with code
  -32601 and the id of the request; when the handler throws, the response is an error with
  code -32603 that carries the message of the thrown \<^verbatim>\<open>Error\<close> (and the text
  \<^verbatim>\<open>Internal error\<close> for a thrown value that is not an \<^verbatim>\<open>Error\<close>); otherwise the
  response is what the handler returned. A message without a method is answered with
  code -32603 too.
\<close>

theorem handleRequestSync_responses:
  "(\<exists>r. handleRequestSync hs msg = Inr r) \<and>
   (msg_method msg = None \<longrightarrow>
      handleRequestSync hs msg =
        Inr \<lparr> jsonrpc = ''2.0'', resp_id = Some (id_or_null (msg_id msg)), result = None,
              error = Some \<lparr> code = - 32603,
                             message = ''Invalid JSON-RPC message: missing method'' \<rparr> \<rparr>) \<and>
   (\<forall>m. msg_method msg = Some m \<and> hs m = None \<longrightarrow>
      handleRequestSync hs msg =
        Inr \<lparr> jsonrpc = ''2.0'', resp_id = msg_id msg, result = None,
              error = Some \<lparr> code = - 32601, message = ''Method not found: '' @ m \<rparr> \<rparr>) \<and>
   (\<forall>m h text. msg_method msg = Some m \<and> hs m = Some h \<and> h msg = Inl (ErrorObject text) \<longrightarrow>
      handleRequestSync hs msg =
        Inr \<lparr> jsonrpc = ''2.0'', resp_id = Some (id_or_null (msg_id msg)), result = None,
              error = Some \<lparr> code = - 32603, message = text \<rparr> \<rparr>) \<and>
   (\<forall>m h v. msg_method msg = Some m \<and> hs m = Some h \<and> h msg = Inl (OtherValue v) \<longrightarrow>
      handleRequestSync hs msg =
        Inr \<lparr> jsonrpc = ''2.0'', resp_id = Some (id_or_null (msg_id msg)), result = None,
              error = Some \<lparr> code = - 32603, message = ''Internal error'' \<rparr> \<rparr>) \<and>
   (\<forall>m h r. msg_method msg = Some m \<and> hs m = Some h \<and> h msg = Inr r \<longrightarrow>
      handleRequestSync hs msg = Inr r)"
  by (auto simp: handleRequestSync_def handleRequestSync_try_def
      split: option.splits sum.splits thrown.splits)

text \<open>
  The theorem at the scenario of the specification (\<^verbatim>\<open>unknown_method\<close> with id 1), at
  a handler that throws and at a handler that returns, for a table of two handlers.
\<close>

theorem handleRequestSync_responses_witness:
  "handleRequestSync
     [''ping'' \<mapsto> (\<lambda>m. Inr \<lparr> jsonrpc = ''2.0'', resp_id = msg_id m, result = Some JNull,
                                error = None \<rparr>),
      ''fail'' \<mapsto> (\<lambda>m. Inl (ErrorObject ''Missing arguments''))]
     \<lparr> msg_id = Some (IdNum 1), msg_method = Some ''unknown_method'', msg_params = None \<rparr>
   = Inr \<lparr> jsonrpc = ''2.0'', resp_id = Some (IdNum 1), result = None,
           error = Some \<lparr> code = - 32601, message = ''Method not found: unknown_method'' \<rparr> \<rparr> \<and>
   handleRequestSync
     [''ping'' \<mapsto> (\<lambda>m. Inr \<lparr> jsonrpc = ''2.0'', resp_id = msg_id m, result = Some JNull,
                                error = None \<rparr>),
      ''fail'' \<mapsto> (\<lambda>m. Inl (ErrorObject ''Missing arguments''))]
     \<lparr> msg_id = Some (IdNum 2), msg_method = Some ''fail'', msg_params = None \<rparr>
   = Inr \<lparr> jsonrpc = ''2.0'', resp_id = Some (IdNum 2), result = None,
           error = Some \<lparr> code = - 32603, message = ''Missing arguments'' \<rparr> \<rparr> \<and>
   handleRequestSync
     [''ping'' \<mapsto> (\<lambda>m. Inr \<lparr> jsonrpc = ''2.0'', resp_id = msg_id m, result = Some JNull,
                                error = None \<rparr>),
      ''fail'' \<mapsto> (\<lambda>m. Inl (ErrorObject ''Missing arguments''))]
     \<lparr> msg_id = Some (IdNum 3), msg_method = Some ''ping'', msg_params = None \<rparr>
   = Inr \<lparr> jsonrpc = ''2.0'', resp_id = Some (IdNum 3), result = Some JNull, error = None \<rparr>"
  using
    handleRequestSync_responses
      [of "[''ping'' \<mapsto> (\<lambda>m. Inr \<lparr> jsonrpc = ''2.0'', resp_id = msg_id m,
                                       result = Some JNull, error = None \<rparr>),
            ''fail'' \<mapsto> (\<lambda>m. Inl (ErrorObject ''Missing arguments''))]"
          "\<lparr> msg_id = Some (IdNum 1), msg_method = Some ''unknown_method'', msg_params = None \<rparr>"]
    handleRequestSync_responses
      [of "[''ping'' \<mapsto> (\<lambda>m. Inr \<lparr> jsonrpc = ''2.0'', resp_id = msg_id m,
                                       result = Some JNull, error = None \<rparr>),
            ''fail'' \<mapsto> (\<lambda>m. Inl (ErrorObject ''Missing arguments''))]"
          "\<lparr> msg_id = Some (IdNum 2), msg_method = Some ''fail'', msg_params = None \<rparr>"]
    handleRequestSync_responses
      [of "[''ping'' \<mapsto> (\<lambda>m. Inr \<lparr> jsonrpc = ''2.0'', resp_id = msg_id m,
                                       result = Some JNull, error = None \<rparr>),
            ''fail'' \<mapsto> (\<lambda>m. Inl (ErrorObject ''Missing arguments''))]"
          "\<lparr> msg_id = Some (IdNum 3), msg_method = Some ''ping'', msg_params = None \<rparr>"]
  by simp

text \<open>
  Claim C7 as stated fails on the error path of the tools: the client of the forms API
  throws a plain object with a \<^verbatim>\<open>message\<close> field, which is no \<^verbatim>\<open>Error\<close>, and the
  response to the \<^verbatim>\<open>tools/call\<close> request carries \<^verbatim>\<open>Internal error\<close> in place of the
  thrown message.
\<close>

theorem thrown_message_lost_counterexample:
  "handleRequestSync
     [''tools/call'' \<mapsto>
        (\<lambda>m. Inl (OtherValue (JObj [(''message'', JStr ''Request failed with status code 404''),
                                     (''name'', JStr ''AxiosError'')])))]
     \<lparr> msg_id = Some (IdNum 1), msg_method = Some ''tools/call'', msg_params = None \<rparr>
   = Inr \<lparr> jsonrpc = ''2.0'', resp_id = Some (IdNum 1), result = None,
           error = Some \<lparr> code = - 32603, message = ''Internal error'' \<rparr> \<rparr> \<and>
   ''Internal error'' \<noteq> ''Request failed with status code 404''"
  by (simp add: handleRequestSync_def handleRequestSync_try_def)

lemma handleRequestSync_error_path:
  "handleRequestSync_try hs msg = Inl e \<longleftrightarrow>
     (msg_method msg = None \<and> e = ErrorObject ''Invalid JSON-RPC message: missing method'') \<or>
     (\<exists>m h. msg_method msg = Some m \<and> hs m = Some h \<and> h msg = Inl e)"
  by (auto simp: handleRequestSync_try_def split: option.splits)

text \<open>
  Claim C10. When \<^verbatim>\<open>handleRequestSync\<close> takes its error path (the method field is
  missing, or the handler throws), the id of the response is the id of the message when
  that id is truthy, and \<^verbatim>\<open>null\<close> otherwise: a non-zero number and a non-empty string
  are kept, and 0, the empty string, \<^verbatim>\<open>null\<close> and a missing id give \<^verbatim>\<open>null\<close>. In
  particular a request with id 0 that errors is answered with id \<^verbatim>\<open>null\<close>, not 0.
\<close>

theorem error_response_id:
  "((msg_method msg = None \<or> (\<exists>m h. msg_method msg = Some m \<and> hs m = Some h \<and> h msg = Inl e)) \<longrightarrow>
     (\<exists>r. handleRequestSync hs msg = Inr r \<and>
          resp_id r = Some (id_or_null (msg_id msg)) \<and>
          (\<forall>k. msg_id msg = Some (IdNum k) \<and> k \<noteq> 0 \<longrightarrow> resp_id r = Some (IdNum k)) \<and>
          (\<forall>s. msg_id msg = Some (IdStr s) \<and> s \<noteq> [] \<longrightarrow> resp_id r = Some (IdStr s)) \<and>
          (msg_id msg = Some (IdNum 0) \<or> msg_id msg = Some (IdStr []) \<or>
           msg_id msg = Some IdNull \<or> msg_id msg = None \<longrightarrow> resp_id r = Some IdNull) \<and>
          (msg_id msg = Some (IdNum 0) \<longrightarrow> resp_id r \<noteq> msg_id msg))) \<and>
   (\<exists>hs' msg' r'. msg_id msg' = Some (IdNum 0) \<and> msg_method msg' \<noteq> None \<and>
        handleRequestSync hs' msg' = Inr r' \<and> code (the (error r')) = - 32603 \<and>
        resp_id r' = Some IdNull)"
proof -
  have general:
    "(msg_method msg = None \<or> (\<exists>m h. msg_method msg = Some m \<and> hs m = Some h \<and> h msg = Inl e)) \<longrightarrow>
     (\<exists>r. handleRequestSync hs msg = Inr r \<and>
          resp_id r = Some (id_or_null (msg_id msg)) \<and>
          (\<forall>k. msg_id msg = Some (IdNum k) \<and> k \<noteq> 0 \<longrightarrow> resp_id r = Some (IdNum k)) \<and>
          (\<forall>s. msg_id msg = Some (IdStr s) \<and> s \<noteq> [] \<longrightarrow> resp_id r = Some (IdStr s)) \<and>
          (msg_id msg = Some (IdNum 0) \<or> msg_id msg = Some (IdStr []) \<or>
           msg_id msg = Some IdNull \<or> msg_id msg = None \<longrightarrow> resp_id r = Some IdNull) \<and>
          (msg_id msg = Some (IdNum 0) \<longrightarrow> resp_id r \<noteq> msg_id msg))"
    by (auto simp: handleRequestSync_def handleRequestSync_try_def
        split: option.splits sum.splits thrown.splits)
  define hs0 :: "string \<rightharpoonup> handler"
    where "hs0 = [''tools/call'' \<mapsto> (\<lambda>m. Inl (ErrorObject ''Missing arguments''))]"
  define msg0 :: jsonrpc_message
    where "msg0 = \<lparr> msg_id = Some (IdNum 0), msg_method = Some ''tools/call'',
                    msg_params = None \<rparr>"
  have "msg_id msg0 = Some (IdNum 0) \<and> msg_method msg0 \<noteq> None \<and>
        handleRequestSync hs0 msg0 =
          Inr \<lparr> jsonrpc = ''2.0'', resp_id = Some IdNull, result = None,
                error = Some \<lparr> code = - 32603, message = ''Missing arguments'' \<rparr> \<rparr>"
    by (simp add: hs0_def msg0_def handleRequestSync_def handleRequestSync_try_def)
  then have "\<exists>hs' msg' r'. msg_id msg' = Some (IdNum 0) \<and> msg_method msg' \<noteq> None \<and>
        handleRequestSync hs' msg' = Inr r' \<and> code (the (error r')) = - 32603 \<and>
        resp_id r' = Some IdNull"
    by (intro exI [of _ hs0] exI [of _ msg0]
        exI [of _ "\<lparr> jsonrpc = ''2.0'', resp_id = Some IdNull, result = None,
                error = Some \<lparr> code = - 32603, message = ''Missing arguments'' \<rparr> \<rparr>"]) simp
  with general show ?thesis by blast
qed

text \<open>The theorem at a request with id 0 whose handler throws.\<close>

theorem error_response_id_witness:
  "(\<exists>r. handleRequestSync [''fail'' \<mapsto> (\<lambda>m. Inl (ErrorObject ''Missing arguments''))]
           \<lparr> msg_id = Some (IdNum 0), msg_method = Some ''fail'', msg_params = None \<rparr> = Inr r \<and>
        resp_id r = Some IdNull \<and> resp_id r \<noteq> Some (IdNum 0))"
  using error_response_id
    [of "\<lparr> msg_id = Some (IdNum 0), msg_method = Some ''fail'', msg_params = None \<rparr>"
        "[''fail'' \<mapsto> (\<lambda>m. Inl (ErrorObject ''Missing arguments''))]"
        "ErrorObject ''Missing arguments''"]
  by simp

section \<open>Properties of the tool handlers\<close>

text \<open>
  Claim C8. Once the form is fetched, \<^verbatim>\<open>update_form\<close> and \<^verbatim>\<open>delete_form\<close> throw
  without calling the update or delete operation of the forms API exactly when the form
  is not owned; an owned form is one whose title starts with \<^verbatim>\<open>[MCP] \<close> or whose path
  starts with \<^verbatim>\<open>mcp-\<close>. For an owned form the mutation is called.
\<close>

theorem ownership_gate:
  assumes "getForm client (map_of args ''formId'') = Inr form"
  shows "(((\<exists>e. snd (update_form client args) = Inl e) \<and>
           (\<forall>i u. UpdateForm i u \<notin> set (fst (update_form client args))))
            \<longleftrightarrow> \<not> isMCPForm form) \<and>
         (((\<exists>e. snd (delete_form client args) = Inl e) \<and>
           (\<forall>i. DeleteForm i \<notin> set (fst (delete_form client args))))
            \<longleftrightarrow> \<not> isMCPForm form) \<and>
         (isMCPForm form \<longrightarrow>
            fst (update_form client args) =
              [GetForm (map_of args ''formId''),
               UpdateForm (map_of args ''formId'') (map_of args ''updates'')] \<and>
            fst (delete_form client args) =
              [GetForm (map_of args ''formId''), DeleteForm (map_of args ''formId'')]) \<and>
         (isMCPForm form \<longleftrightarrow>
            (\<exists>t. title form = Some t \<and> prefix ''[MCP] '' t) \<or>
            (\<exists>p. path form = Some p \<and> prefix ''mcp-'' p))"
proof -
  have own: "isMCPForm form \<longleftrightarrow>
            (\<exists>t. title form = Some t \<and> prefix ''[MCP] '' t) \<or>
            (\<exists>p. path form = Some p \<and> prefix ''mcp-'' p)"
    by (auto simp: isMCPForm_def MCP_PATH_PREFIX_def MCP_TITLE_PREFIX_def split: option.splits)
  have upd: "((\<exists>e. snd (update_form client args) = Inl e) \<and>
           (\<forall>i u. UpdateForm i u \<notin> set (fst (update_form client args))))
            \<longleftrightarrow> \<not> isMCPForm form"
    using assms
    by (auto simp: update_form_def Let_def validateMCPOwnership_def split: sum.splits)
  have del: "((\<exists>e. snd (delete_form client args) = Inl e) \<and>
           (\<forall>i. DeleteForm i \<notin> set (fst (delete_form client args))))
            \<longleftrightarrow> \<not> isMCPForm form"
    using assms
    by (auto simp: delete_form_def Let_def validateMCPOwnership_def split: sum.splits)
  have go: "isMCPForm form \<longrightarrow>
            fst (update_form client args) =
              [GetForm (map_of args ''formId''),
               UpdateForm (map_of args ''formId'') (map_of args ''updates'')] \<and>
            fst (delete_form client args) =
              [GetForm (map_of args ''formId''), DeleteForm (map_of args ''formId'')]"
    using assms
    by (auto simp: update_form_def delete_form_def Let_def validateMCPOwnership_def
        split: sum.splits)
  from own upd del go show ?thesis by blast
qed

text \<open>
  The theorem at a form that is not owned, where both tools throw after the fetch alone,
  and at an owned form, where both call the mutation.
\<close>

theorem ownership_gate_witness:
  "getForm (single_form_client \<lparr> form_id = Some ''5f1'', title = Some ''Contact'',
                                   name = Some ''contact'', path = Some ''contact'' \<rparr>)
     (map_of [(''formId'', JStr ''5f1''), (''updates'', JObj [])] ''formId'')
   = Inr \<lparr> form_id = Some ''5f1'', title = Some ''Contact'', name = Some ''contact'',
           path = Some ''contact'' \<rparr> \<and>
   \<not> isMCPForm \<lparr> form_id = Some ''5f1'', title = Some ''Contact'', name = Some ''contact'',
                  path = Some ''contact'' \<rparr> \<and>
   (\<exists>e. snd (update_form
               (single_form_client \<lparr> form_id = Some ''5f1'', title = Some ''Contact'',
                                      name = Some ''contact'', path = Some ''contact'' \<rparr>)
               [(''formId'', JStr ''5f1''), (''updates'', JObj [])]) = Inl e) \<and>
   (\<exists>e. snd (delete_form
               (single_form_client \<lparr> form_id = Some ''5f1'', title = Some ''Contact'',
                                      name = Some ''contact'', path = Some ''contact'' \<rparr>)
               [(''formId'', JStr ''5f1''), (''updates'', JObj [])]) = Inl e) \<and>
   isMCPForm \<lparr> form_id = Some ''5f2'', title = Some ''Survey'', name = Some ''survey'',
                path = Some ''mcp-survey'' \<rparr> \<and>
   fst (update_form
          (single_form_client \<lparr> form_id = Some ''5f2'', title = Some ''Survey'',
                                 name = Some ''survey'', path = Some ''mcp-survey'' \<rparr>)
          [(''formId'', JStr ''5f2''), (''updates'', JObj [])])
   = [GetForm (Some (JStr ''5f2'')), UpdateForm (Some (JStr ''5f2'')) (Some (JObj []))] \<and>
   fst (delete_form
          (single_form_client \<lparr> form_id = Some ''5f2'', title = Some ''Survey'',
                                 name = Some ''survey'', path = Some ''mcp-survey'' \<rparr>)
          [(''formId'', JStr ''5f2''), (''updates'', JObj [])])
   = [GetForm (Some (JStr ''5f2'')), DeleteForm (Some (JStr ''5f2''))]"
proof -
  have foreign:
    "getForm (single_form_client \<lparr> form_id = Some ''5f1'', title = Some ''Contact'',
                                     name = Some ''contact'', path = Some ''contact'' \<rparr>)
       (map_of [(''formId'', JStr ''5f1''), (''updates'', JObj [])] ''formId'')
     = Inr \<lparr> form_id = Some ''5f1'', title = Some ''Contact'', name = Some ''contact'',
             path = Some ''contact'' \<rparr>"
    by (simp add: single_form_client_def)
  have owned:
    "getForm (single_form_client \<lparr> form_id = Some ''5f2'', title = Some ''Survey'',
                                     name = Some ''survey'', path = Some ''mcp-survey'' \<rparr>)
       (map_of [(''formId'', JStr ''5f2''), (''updates'', JObj [])] ''formId'')
     = Inr \<lparr> form_id = Some ''5f2'', title = Some ''Survey'', name = Some ''survey'',
             path = Some ''mcp-survey'' \<rparr>"
    by (simp add: single_form_client_def)
  have not_mcp:
    "\<not> isMCPForm \<lparr> form_id = Some ''5f1'', title = Some ''Contact'', name = Some ''contact'',
                    path = Some ''contact'' \<rparr>"
    by (simp add: isMCPForm_def MCP_PATH_PREFIX_def MCP_TITLE_PREFIX_def)
  have mcp:
    "isMCPForm \<lparr> form_id = Some ''5f2'', title = Some ''Survey'', name = Some ''survey'',
                 path = Some ''mcp-survey'' \<rparr>"
    by (simp add: isMCPForm_def MCP_PATH_PREFIX_def MCP_TITLE_PREFIX_def)
  note g1 = ownership_gate [OF foreign] and g2 = ownership_gate [OF owned]
  from g1 not_mcp have u1:
    "\<exists>e. snd (update_form
               (single_form_client \<lparr> form_id = Some ''5f1'', title = Some ''Contact'',
                                      name = Some ''contact'', path = Some ''contact'' \<rparr>)
               [(''formId'', JStr ''5f1''), (''updates'', JObj [])]) = Inl e"
    by blast
  from g1 not_mcp have d1:
    "\<exists>e. snd (delete_form
               (single_form_client \<lparr> form_id = Some ''5f1'', title = Some ''Contact'',
                                      name = Some ''contact'', path = Some ''contact'' \<rparr>)
               [(''formId'', JStr ''5f1''), (''updates'', JObj [])]) = Inl e"
    by blast
  from g2 mcp have u2:
    "fst (update_form
          (single_form_client \<lparr> form_id = Some ''5f2'', title = Some ''Survey'',
                                 name = Some ''survey'', path = Some ''mcp-survey'' \<rparr>)
          [(''formId'', JStr ''5f2''), (''updates'', JObj [])])
     = [GetForm (Some (JStr ''5f2'')), UpdateForm (Some (JStr ''5f2'')) (Some (JObj []))]"
    by simp
  from g2 mcp have d2:
    "fst (delete_form
          (single_form_client \<lparr> form_id = Some ''5f2'', title = Some ''Survey'',
                                 name = Some ''survey'', path = Some ''mcp-survey'' \<rparr>)
          [(''formId'', JStr ''5f2''), (''updates'', JObj [])])
     = [GetForm (Some (JStr ''5f2'')), DeleteForm (Some (JStr ''5f2''))]"
    by simp
  from foreign not_mcp u1 d1 mcp u2 d2 show ?thesis
    by (intro conjI)
qed

lemma create_form_call:
  assumes "CreateForm fd \<in> set (fst (create_form client args))"
  shows "\<exists>t p. fd_title fd = (if prefix MCP_TITLE_PREFIX t then t else MCP_TITLE_PREFIX @ t) \<and>
               fd_path fd = (if prefix MCP_PATH_PREFIX p then p else MCP_PATH_PREFIX @ p)"
  using assms
  by (auto simp: create_form_def Let_def split: option.splits json.splits sum.splits if_splits)

text \<open>
  Claim C9. Whenever \<^verbatim>\<open>create_form\<close> accepts its input and calls the forms API, the form
  data it sends has a title that starts with \<^verbatim>\<open>[MCP] \<close> and a path that starts with
  \<^verbatim>\<open>mcp-\<close>. So \<^verbatim>\<open>isMCPForm\<close> holds for the form stored with that title and path, and
  the ownership check of \<^verbatim>\<open>update_form\<close> and \<^verbatim>\<open>delete_form\<close> passes for it.
\<close>

theorem created_form_owned:
  assumes "CreateForm fd \<in> set (fst (create_form client args))"
  shows "prefix ''[MCP] '' (fd_title fd) \<and> prefix ''mcp-'' (fd_path fd) \<and>
         isMCPForm (stored_form i fd) \<and>
         validateMCPOwnership (stored_form i fd) ''update'' = Inr () \<and>
         validateMCPOwnership (stored_form i fd) ''delete'' = Inr ()"
proof -
  obtain t p where
    t: "fd_title fd = (if prefix MCP_TITLE_PREFIX t then t else MCP_TITLE_PREFIX @ t)" and
    p: "fd_path fd = (if prefix MCP_PATH_PREFIX p then p else MCP_PATH_PREFIX @ p)"
    using create_form_call [OF assms] by blast
  have 1: "prefix MCP_TITLE_PREFIX (fd_title fd)"
    using t by simp
  have 2: "prefix MCP_PATH_PREFIX (fd_path fd)"
    using p by simp
  have 3: "isMCPForm (stored_form i fd)"
    using 1 by (simp add: isMCPForm_def stored_form_def)
  show ?thesis
    using 1 2 3 by (simp add: validateMCPOwnership_def MCP_TITLE_PREFIX_def MCP_PATH_PREFIX_def)
qed

text \<open>
  The theorem at an input whose title and path carry no prefix: the path
  \<^verbatim>\<open>My Survey/\<close> is normalised to \<^verbatim>\<open>mysurvey\<close> and sent as \<^verbatim>\<open>mcp-mysurvey\<close>.
\<close>

theorem created_form_owned_witness:
  "CreateForm \<lparr> fd_title = ''[MCP] Survey'', fd_name = Some (JStr ''survey''),
                 fd_path = ''mcp-mysurvey'', fd_components = Some (JArr []),
                 fd_display = JStr ''form'', fd_type = JStr ''form'' \<rparr>
     \<in> set (fst (create_form
                   (single_form_client \<lparr> form_id = None, title = None, name = None,
                                          path = None \<rparr>)
                   [(''title'', JStr ''Survey''), (''name'', JStr ''survey''),
                    (''path'', JStr ''My Survey/''), (''components'', JArr [])])) \<and>
   isMCPForm (stored_form (Some ''1'')
                \<lparr> fd_title = ''[MCP] Survey'', fd_name = Some (JStr ''survey''),
                  fd_path = ''mcp-mysurvey'', fd_components = Some (JArr []),
                  fd_display = JStr ''form'', fd_type = JStr ''form'' \<rparr>)"
proof -
  have h: "CreateForm \<lparr> fd_title = ''[MCP] Survey'', fd_name = Some (JStr ''survey''),
                 fd_path = ''mcp-mysurvey'', fd_components = Some (JArr []),
                 fd_display = JStr ''form'', fd_type = JStr ''form'' \<rparr>
     \<in> set (fst (create_form
                   (single_form_client \<lparr> form_id = None, title = None, name = None,
                                          path = None \<rparr>)
                   [(''title'', JStr ''Survey''), (''name'', JStr ''survey''),
                    (''path'', JStr ''My Survey/''), (''components'', JArr [])]))"
    by (simp add: create_form_def single_form_client_def normalize_path_def toLowerCase_def
        path_char_def separator_def truthy_def MCP_TITLE_PREFIX_def MCP_PATH_PREFIX_def
        or_default_def Let_def)
  show ?thesis
    using h created_form_owned [OF h, of "Some ''1''"] by blast
qed

section \<open>Properties of the dispatch\<close>


lemma unregister_frame:
  "timers (unregisterPreviewConnection c n) = timers n"
  "pendingNotifications (unregisterPreviewConnection c n) = pendingNotifications n"
  "debounceInterval (unregisterPreviewConnection c n) = debounceInterval n"
  "nextTimerId (unregisterPreviewConnection c n) = nextTimerId n"
  "dispatched (unregisterPreviewConnection c n) = dispatched n"
  "written (unregisterPreviewConnection c n) = written n"
  "sseManager (unregisterPreviewConnection c n) = sseManager n"
  by (simp_all add: unregisterPreviewConnection_def Let_def split: option.splits)

lemma fold_unregister_frame:
  "timers (fold unregisterPreviewConnection cs n) = timers n"
  "pendingNotifications (fold unregisterPreviewConnection cs n) = pendingNotifications n"
  "debounceInterval (fold unregisterPreviewConnection cs n) = debounceInterval n"
  "nextTimerId (fold unregisterPreviewConnection cs n) = nextTimerId n"
  "dispatched (fold unregisterPreviewConnection cs n) = dispatched n"
  "written (fold unregisterPreviewConnection cs n) = written n"
  "sseManager (fold unregisterPreviewConnection cs n) = sseManager n"
  by (induction cs arbitrary: n; simp add: unregister_frame)+

lemma dispatch_loop_dead:
  "deadConnections (dispatch_loop mgr f ts ch cs acc) =
     deadConnections acc @ filter (\<lambda>c. \<not> hasConnection mgr c) cs"
  by (induction cs arbitrary: acc)
     (auto simp: Let_def sendFormUpdateEvent_def sendFormDeletedEvent_def hasConnection_def
        getConnectionInfo_def split: option.splits prod.splits)

lemma dispatch_loop_attempted:
  "attempted (dispatch_loop mgr f ts ch cs acc) =
     attempted acc @ concat (map (write_of mgr (event_frame f ts ch)) cs)"
  by (induction cs arbitrary: acc)
     (auto simp: Let_def sendFormUpdateEvent_def sendFormDeletedEvent_def write_of_def
        event_frame_def getConnectionInfo_def split: option.splits prod.splits)

lemma sendNotification_indices:
  "sendNotification now f ch d n =
     fold unregisterPreviewConnection
       (filter (\<lambda>c. \<not> hasConnection (sseManager n) c) (getConnectionsByForm n f))
       (n\<lparr> dispatched := dispatched n @ [(f, ch, d)],
           written := written n @
             concat (map (write_of (sseManager n) (event_frame f now ch)) (getConnectionsByForm n f)) \<rparr>)"
  by (auto simp: sendNotification_def Let_def dispatch_loop_dead dispatch_loop_attempted
      empty_tally_def getConnectionsByForm_def)

lemma fold_unregister_other:
  "c \<notin> set ds \<Longrightarrow>
   connectionForms (fold unregisterPreviewConnection ds n) c = connectionForms n c \<and>
   (c \<in> set (getConnectionsByForm (fold unregisterPreviewConnection ds n) f)
      \<longleftrightarrow> c \<in> set (getConnectionsByForm n f))"
  by (induction ds arbitrary: n)
     (auto simp: unregister_connectionForms unregister_watchers split: option.splits)

lemma fold_unregister_stays_out:
  "c \<notin> set (getConnectionsByForm n f) \<Longrightarrow>
   c \<notin> set (getConnectionsByForm (fold unregisterPreviewConnection ds n) f)"
  by (induction ds arbitrary: n) (auto simp: unregister_watchers)

lemma fold_unregister_stays_none:
  "connectionForms n c = None \<Longrightarrow>
   connectionForms (fold unregisterPreviewConnection ds n) c = None"
  by (induction ds arbitrary: n) (auto simp: unregister_connectionForms split: option.splits)

lemma fold_unregister_removes:
  "c \<in> set ds \<Longrightarrow> connectionForms n c = Some f \<Longrightarrow> f \<noteq> [] \<Longrightarrow>
   connectionForms (fold unregisterPreviewConnection ds n) c = None \<and>
   c \<notin> set (getConnectionsByForm (fold unregisterPreviewConnection ds n) f)"
proof (induction ds arbitrary: n)
  case Nil
  then show ?case by simp
next
  case (Cons d ds)
  show ?case
  proof (cases "d = c")
    case True
    have "connectionForms (unregisterPreviewConnection c n) c = None"
      using Cons.prems by (simp add: unregister_connectionForms)
    moreover have "c \<notin> set (getConnectionsByForm (unregisterPreviewConnection c n) f)"
      using Cons.prems by (simp add: unregister_watchers)
    ultimately show ?thesis
      using True by (simp add: fold_unregister_stays_none fold_unregister_stays_out)
  next
    case False
    then have "c \<in> set ds" using Cons.prems by simp
    moreover have "connectionForms (unregisterPreviewConnection d n) c = Some f"
      using False Cons.prems by (simp add: unregister_connectionForms split: option.splits)
    ultimately show ?thesis
      using Cons.IH [of "unregisterPreviewConnection d n"] Cons.prems by simp
  qed
qed



lemma sendNotification_frame:
  "timers (sendNotification now f ch d n) = timers n"
  "pendingNotifications (sendNotification now f ch d n) = pendingNotifications n"
  "debounceInterval (sendNotification now f ch d n) = debounceInterval n"
  "nextTimerId (sendNotification now f ch d n) = nextTimerId n"
  "sseManager (sendNotification now f ch d n) = sseManager n"
  "dispatched (sendNotification now f ch d n) = dispatched n @ [(f, ch, d)]"
  "written (sendNotification now f ch d n) = written n @
     concat (map (write_of (sseManager n) (event_frame f now ch)) (getConnectionsByForm n f))"
  by (simp_all add: sendNotification_indices fold_unregister_frame)

lemma mark_connectionForms [simp]:
  "connectionForms (n\<lparr> dispatched := x, written := y \<rparr>) = connectionForms n"
  by simp

lemma mark_watchers [simp]:
  "getConnectionsByForm (n\<lparr> dispatched := x, written := y \<rparr>) f = getConnectionsByForm n f"
  by (simp add: getConnectionsByForm_def)

text \<open>
  What one dispatch over the watchers of a non-empty form id does: a watcher that the
  registry no longer has is removed from the forward and the reverse index after the
  loop; a watcher that the registry still has stays in both, whatever its write did; and
  the event frame is written to the stream of every watcher that the registry has.
\<close>

lemma dispatch_reaps_dead:
  assumes "c1 \<in> set (getConnectionsByForm n f)"
      and "connectionForms n c1 = Some f" and "f \<noteq> []"
  shows "(\<not> hasConnection (sseManager n) c1 \<longrightarrow>
            c1 \<notin> set (getConnectionsByForm (sendNotification now f ch d n) f) \<and>
            getFormByConnection (sendNotification now f ch d n) c1 = None) \<and>
         (hasConnection (sseManager n) c1 \<longrightarrow>
            c1 \<in> set (getConnectionsByForm (sendNotification now f ch d n) f) \<and>
            getFormByConnection (sendNotification now f ch d n) c1 = Some f) \<and>
         (\<forall>c2 \<in> set (getConnectionsByForm n f). \<forall>conn.
            connections (sseManager n) c2 = Some conn \<longrightarrow>
            (c2, event_frame f now ch, res conn (event_frame f now ch))
              \<in> set (written (sendNotification now f ch d n)))"
proof -
  let ?dead = "filter (\<lambda>c. \<not> hasConnection (sseManager n) c) (getConnectionsByForm n f)"
  let ?m = "n\<lparr> dispatched := dispatched n @ [(f, ch, d)],
              written := written n @
                concat (map (write_of (sseManager n) (event_frame f now ch))
                          (getConnectionsByForm n f)) \<rparr>"
  have s: "sendNotification now f ch d n = fold unregisterPreviewConnection ?dead ?m"
    by (rule sendNotification_indices)
  have dead: "c1 \<notin> set (getConnectionsByForm (sendNotification now f ch d n) f) \<and>
              getFormByConnection (sendNotification now f ch d n) c1 = None"
    if "\<not> hasConnection (sseManager n) c1"
  proof -
    have "c1 \<in> set ?dead" using that assms(1) by simp
    moreover have "connectionForms ?m c1 = Some f" using assms(2) by simp
    ultimately show ?thesis
      using fold_unregister_removes [of c1 ?dead ?m f] assms(3)
      by (simp add: s getFormByConnection_def)
  qed
  have alive: "c1 \<in> set (getConnectionsByForm (sendNotification now f ch d n) f) \<and>
              getFormByConnection (sendNotification now f ch d n) c1 = Some f"
    if "hasConnection (sseManager n) c1"
  proof -
    have "c1 \<notin> set ?dead" using that by simp
    then show ?thesis
      using fold_unregister_other [of c1 ?dead ?m f] assms(1,2)
      by (simp add: s getFormByConnection_def)
  qed
  have wr: "(c2, event_frame f now ch, res conn (event_frame f now ch))
              \<in> set (written (sendNotification now f ch d n))"
    if "c2 \<in> set (getConnectionsByForm n f)" "connections (sseManager n) c2 = Some conn"
    for c2 conn
    using that by (auto simp: sendNotification_frame write_of_def intro!: bexI [of _ c2])
  from dead alive wr show ?thesis by blast
qed

section \<open>Properties of the deletion of a form\<close>


lemma cancel_pending_frame:
  "connectionForms (cancel_pending f n) = connectionForms n"
  "formWatchers (cancel_pending f n) = formWatchers n"
  "sseManager (cancel_pending f n) = sseManager n"
  "dispatched (cancel_pending f n) = dispatched n"
  "pendingNotifications (cancel_pending f n) f = None"
  "getConnectionsByForm (cancel_pending f n) g = getConnectionsByForm n g"
  by (simp_all add: cancel_pending_def clearTimeout_def getConnectionsByForm_def split: option.splits)

lemma cancel_pending_timers:
  "timers (cancel_pending f n) =
     (case pendingNotifications n f of
        Some p \<Rightarrow> filter (\<lambda>t. timer_id t \<noteq> p) (timers n) | None \<Rightarrow> timers n)"
  by (simp add: cancel_pending_def clearTimeout_def split: option.splits)

lemma fold_cleanup:
  "fold (\<lambda>connectionId m.
           case getConnectionInfo (sseManager m) connectionId of
             Some conn \<Rightarrow> unregisterPreviewConnection connectionId m
           | None \<Rightarrow> m) cs n
   = fold unregisterPreviewConnection (filter (hasConnection (sseManager n)) cs) n"
  by (induction cs arbitrary: n)
     (auto simp: getConnectionInfo_def hasConnection_def unregister_frame split: option.splits)

lemma notifyFormDeleted_unfold:
  "notifyFormDeleted now f n =
     fold unregisterPreviewConnection
       (filter (hasConnection (sseManager n))
          (getConnectionsByForm (sendNotification now f Deleted None n) f))
       (cancel_pending f (sendNotification now f Deleted None n))"
  by (simp add: notifyFormDeleted_def Let_def fold_cleanup cancel_pending_def [symmetric]
      cancel_pending_frame sendNotification_frame)

lemma notifyFormDeleted_frame:
  "sseManager (notifyFormDeleted now f n) = sseManager n"
  "dispatched (notifyFormDeleted now f n) = dispatched n @ [(f, Deleted, None)]"
  "pendingNotifications (notifyFormDeleted now f n) f = None"
  by (simp_all add: notifyFormDeleted_unfold fold_unregister_frame cancel_pending_frame
      sendNotification_frame)

lemma notifyFormDeleted_unwatches:
  assumes "c \<in> set (getConnectionsByForm n f)"
      and "connectionForms n c = Some f" and "f \<noteq> []"
  shows "c \<notin> set (getConnectionsByForm (notifyFormDeleted now f n) f) \<and>
         connectionForms (notifyFormDeleted now f n) c = None"
proof -
  let ?n1 = "sendNotification now f Deleted None n"
  let ?dead = "filter (\<lambda>c. \<not> hasConnection (sseManager n) c) (getConnectionsByForm n f)"
  let ?m = "n\<lparr> dispatched := dispatched n @ [(f, Deleted, None)],
              written := written n @
                concat (map (write_of (sseManager n) (event_frame f now Deleted))
                          (getConnectionsByForm n f)) \<rparr>"
  let ?alive = "filter (hasConnection (sseManager n)) (getConnectionsByForm ?n1 f)"
  have s: "?n1 = fold unregisterPreviewConnection ?dead ?m"
    by (rule sendNotification_indices)
  show ?thesis
  proof (cases "c \<in> set ?dead")
    case True
    then have "connectionForms ?n1 c = None \<and> c \<notin> set (getConnectionsByForm ?n1 f)"
      using fold_unregister_removes [of c ?dead ?m f] assms by (simp add: s)
    then show ?thesis
      by (simp add: notifyFormDeleted_unfold fold_unregister_stays_out
          fold_unregister_stays_none cancel_pending_frame)
  next
    case False
    then have keep: "connectionForms ?n1 c = Some f"
      "c \<in> set (getConnectionsByForm ?n1 f) \<longleftrightarrow> c \<in> set (getConnectionsByForm n f)"
      using fold_unregister_other [of c ?dead ?m f] assms by (simp_all add: s)
    show ?thesis
    proof (cases "c \<in> set ?alive")
      case True
      then show ?thesis
        using fold_unregister_removes [of c ?alive "cancel_pending f ?n1" f] keep assms
        by (simp add: notifyFormDeleted_unfold cancel_pending_frame)
    next
      case False
      with \<open>c \<notin> set ?dead\<close> keep(2) assms(1) have False
        by auto
      then show ?thesis ..
    qed
  qed
qed


lemma notifyFormDeleted_stays_out:
  "c \<notin> set (getConnectionsByForm n f) \<Longrightarrow>
   c \<notin> set (getConnectionsByForm (notifyFormDeleted now f n) f)"
  by (simp add: notifyFormDeleted_unfold sendNotification_indices fold_unregister_stays_out
      cancel_pending_frame)

text \<open>
  Claim C3, as amended. In a state with consistent indices and for a non-empty form id
  \<open>f\<close>, after \<^verbatim>\<open>notifyFormDeleted(f)\<close> the list \<^verbatim>\<open>getConnectionsByForm(f)\<close> is empty
  and no connection that watched \<open>f\<close> watches any form. The registry is left as it was:
  \<^verbatim>\<open>hasConnection\<close> answers for every connection what it answered before the call.
\<close>

theorem deleted_form_unwatched:
  assumes "indices_consistent n" and "f \<noteq> []"
  shows "getConnectionsByForm (notifyFormDeleted now f n) f = [] \<and>
         (\<forall>c \<in> set (getConnectionsByForm n f).
            getFormByConnection (notifyFormDeleted now f n) c = None) \<and>
         sseManager (notifyFormDeleted now f n) = sseManager n \<and>
         (\<forall>c. hasConnection (sseManager (notifyFormDeleted now f n)) c
               = hasConnection (sseManager n) c)"
proof -
  have cons: "c \<in> set (getConnectionsByForm n f) \<Longrightarrow> connectionForms n c = Some f" for c
    using assms(1) by (simp add: indices_consistent_def)
  have out: "c \<notin> set (getConnectionsByForm (notifyFormDeleted now f n) f)" for c
  proof (cases "c \<in> set (getConnectionsByForm n f)")
    case True
    then show ?thesis
      using notifyFormDeleted_unwatches [OF True cons [OF True] assms(2)] by simp
  next
    case False
    then show ?thesis by (rule notifyFormDeleted_stays_out)
  qed
  have 1: "getConnectionsByForm (notifyFormDeleted now f n) f = []"
  proof (cases "getConnectionsByForm (notifyFormDeleted now f n) f")
    case Nil
    then show ?thesis .
  next
    case (Cons a as)
    then show ?thesis using out [of a] by simp
  qed
  have 2: "\<forall>c \<in> set (getConnectionsByForm n f).
            getFormByConnection (notifyFormDeleted now f n) c = None"
    using notifyFormDeleted_unwatches cons assms(2) by (simp add: getFormByConnection_def)
  show ?thesis
    using 1 2 by (simp add: notifyFormDeleted_frame)
qed

section \<open>The dispatch and the deletion at concrete states\<close>


lemma watching_f1_state:
  "getConnectionsByForm (watching_f1 mgr) ''f1'' = [''c1'', ''c2'']"
  "connectionForms (watching_f1 mgr) ''c1'' = Some ''f1''"
  "connectionForms (watching_f1 mgr) ''c2'' = Some ''f1''"
  "sseManager (watching_f1 mgr) = mgr"
  "written (watching_f1 mgr) = []"
  "indices_consistent (watching_f1 mgr)"
proof -
  show "getConnectionsByForm (watching_f1 mgr) ''f1'' = [''c1'', ''c2'']"
    by (simp add: watching_f1_def register_watchers register_connectionForms
        unregister_watchers new_notifier_watchers new_notifier_connectionForms set_add_def)
  show "connectionForms (watching_f1 mgr) ''c1'' = Some ''f1''"
    "connectionForms (watching_f1 mgr) ''c2'' = Some ''f1''"
    by (simp_all add: watching_f1_def register_connectionForms)
  show "sseManager (watching_f1 mgr) = mgr" "written (watching_f1 mgr) = []"
    by (simp_all add: watching_f1_def registerPreviewConnection_def Let_def new_notifier_def)
  show "indices_consistent (watching_f1 mgr)"
    unfolding watching_f1_def
    by (intro watch_inv_consistent watch_inv_register watch_inv_new) simp_all
qed

text \<open>
  The write primitive of the registry removes a connection whose write throws, so that
  \<^verbatim>\<open>hasConnection\<close> is false for it afterwards.
\<close>

lemma sendEvent_removes_on_throw:
  "connections mgr c = Some conn \<Longrightarrow> res conn data = WriteThrows \<Longrightarrow>
   fst (sendEvent mgr c data) = False \<and> \<not> hasConnection (snd (sendEvent mgr c data)) c"
  by (simp add: sendEvent_def removeConnection_def hasConnection_def)

text \<open>
  Claim C4: the code where the claim fails. The connections \<open>c1\<close> and \<open>c2\<close> watch \<open>f1\<close>,
  the registry has both, and the write on \<open>c1\<close> throws. \<^verbatim>\<open>sendFormUpdateEvent\<close> catches
  the exception and answers \<^verbatim>\<open>false\<close> without removing \<open>c1\<close> from the registry (the
  registry's own \<^verbatim>\<open>sendEvent\<close> removes the connection there), so the dispatch does not
  take \<open>c1\<close> for dead: \<open>c1\<close> is still in the registry, in the watcher set of \<open>f1\<close> and
  in the reverse index after the call. The frame is written to \<open>c2\<close> in the same call.
\<close>

theorem throwing_write_keeps_watcher:
  "(''c1'', FormUpdateEvent ''f1'' 10 Updated, WriteThrows) \<in> set (written
      (sendNotification 10 ''f1'' Updated None
         (watching_f1 \<lparr> connections = [''c1'' \<mapsto> stream_conn ''c1'' WriteThrows,
                                          ''c2'' \<mapsto> stream_conn ''c2'' WriteOk] \<rparr>))) \<and>
   hasConnection (sseManager
      (sendNotification 10 ''f1'' Updated None
         (watching_f1 \<lparr> connections = [''c1'' \<mapsto> stream_conn ''c1'' WriteThrows,
                                          ''c2'' \<mapsto> stream_conn ''c2'' WriteOk] \<rparr>))) ''c1'' \<and>
   getConnectionsByForm
      (sendNotification 10 ''f1'' Updated None
         (watching_f1 \<lparr> connections = [''c1'' \<mapsto> stream_conn ''c1'' WriteThrows,
                                          ''c2'' \<mapsto> stream_conn ''c2'' WriteOk] \<rparr>)) ''f1''
     = [''c1'', ''c2''] \<and>
   getFormByConnection
      (sendNotification 10 ''f1'' Updated None
         (watching_f1 \<lparr> connections = [''c1'' \<mapsto> stream_conn ''c1'' WriteThrows,
                                          ''c2'' \<mapsto> stream_conn ''c2'' WriteOk] \<rparr>)) ''c1''
     = Some ''f1'' \<and>
   (''c2'', FormUpdateEvent ''f1'' 10 Updated, WriteOk) \<in> set (written
      (sendNotification 10 ''f1'' Updated None
         (watching_f1 \<lparr> connections = [''c1'' \<mapsto> stream_conn ''c1'' WriteThrows,
                                          ''c2'' \<mapsto> stream_conn ''c2'' WriteOk] \<rparr>)))"
  by (simp add: sendNotification_indices fold_unregister_frame watching_f1_state
      hasConnection_def write_of_def event_frame_def stream_conn_def getFormByConnection_def)

text \<open>
  A watcher that the registry has lost is reaped by the dispatch: with \<open>c1\<close> gone from the
  registry, \<open>c1\<close> leaves both indices and \<open>c2\<close> is written to.
\<close>

lemma dead_watcher_reaped:
  "\<not> hasConnection \<lparr> connections = [''c2'' \<mapsto> stream_conn ''c2'' WriteOk] \<rparr> ''c1'' \<and>
   getConnectionsByForm
      (sendNotification 10 ''f1'' Updated None
         (watching_f1 \<lparr> connections = [''c2'' \<mapsto> stream_conn ''c2'' WriteOk] \<rparr>)) ''f1''
     = [''c2''] \<and>
   getFormByConnection
      (sendNotification 10 ''f1'' Updated None
         (watching_f1 \<lparr> connections = [''c2'' \<mapsto> stream_conn ''c2'' WriteOk] \<rparr>)) ''c1'' = None \<and>
   (''c2'', FormUpdateEvent ''f1'' 10 Updated, WriteOk) \<in> set (written
      (sendNotification 10 ''f1'' Updated None
         (watching_f1 \<lparr> connections = [''c2'' \<mapsto> stream_conn ''c2'' WriteOk] \<rparr>)))"
  by (simp add: sendNotification_indices fold_unregister_frame watching_f1_state
      hasConnection_def write_of_def event_frame_def stream_conn_def getFormByConnection_def
      unregister_watchers unregister_connectionForms unregister_frame)

text \<open>The theorem at the deletion of \<open>f1\<close> while \<open>c1\<close> and \<open>c2\<close> watch it.\<close>

theorem deleted_form_unwatched_witness:
  "indices_consistent
     (watching_f1 \<lparr> connections = [''c1'' \<mapsto> stream_conn ''c1'' WriteOk,
                                      ''c2'' \<mapsto> stream_conn ''c2'' WriteOk] \<rparr>) \<and>
   ''f1'' \<noteq> [] \<and>
   getConnectionsByForm
     (notifyFormDeleted 10 ''f1''
        (watching_f1 \<lparr> connections = [''c1'' \<mapsto> stream_conn ''c1'' WriteOk,
                                         ''c2'' \<mapsto> stream_conn ''c2'' WriteOk] \<rparr>)) ''f1'' = [] \<and>
   getFormByConnection
     (notifyFormDeleted 10 ''f1''
        (watching_f1 \<lparr> connections = [''c1'' \<mapsto> stream_conn ''c1'' WriteOk,
                                         ''c2'' \<mapsto> stream_conn ''c2'' WriteOk] \<rparr>)) ''c1'' = None"
proof -
  let ?mgr = "\<lparr> connections = [''c1'' \<mapsto> stream_conn ''c1'' WriteOk,
                                 ''c2'' \<mapsto> stream_conn ''c2'' WriteOk] \<rparr>"
  have h1: "indices_consistent (watching_f1 ?mgr)" by (rule watching_f1_state)
  have h2: "''f1'' \<noteq> []" by simp
  have m: "''c1'' \<in> set (getConnectionsByForm (watching_f1 ?mgr) ''f1'')"
    by (simp add: watching_f1_state)
  from deleted_form_unwatched [OF h1 h2, of 10] m h1 h2 show ?thesis
    by blast
qed

text \<open>
  Claim C3 as stated fails: \<open>c1\<close> watched \<open>f1\<close> and the registry still has it after
  \<^verbatim>\<open>notifyFormDeleted\<close>.
\<close>

theorem deleted_form_registry_counterexample:
  "''c1'' \<in> set (getConnectionsByForm
      (watching_f1 \<lparr> connections = [''c1'' \<mapsto> stream_conn ''c1'' WriteOk,
                                       ''c2'' \<mapsto> stream_conn ''c2'' WriteOk] \<rparr>) ''f1'') \<and>
   hasConnection (sseManager
     (notifyFormDeleted 10 ''f1''
        (watching_f1 \<lparr> connections = [''c1'' \<mapsto> stream_conn ''c1'' WriteOk,
                                         ''c2'' \<mapsto> stream_conn ''c2'' WriteOk] \<rparr>))) ''c1''"
  by (simp add: notifyFormDeleted_frame watching_f1_state hasConnection_def)


section \<open>Properties of the immediate notifications\<close>



lemma notifyFormDeleted_timers:
  "timers (notifyFormDeleted now f n) =
     (case pendingNotifications n f of
        Some p \<Rightarrow> filter (\<lambda>t. timer_id t \<noteq> p) (timers n) | None \<Rightarrow> timers n)"
  by (simp add: notifyFormDeleted_unfold fold_unregister_frame cancel_pending_timers
      sendNotification_frame split: option.splits)

text \<open>
  Claim C5, as amended. Every call of \<^verbatim>\<open>notifyFormCreated(f, ...)\<close> and of
  \<^verbatim>\<open>notifyFormDeleted(f)\<close> dispatches at once and exactly once, and sets no timer.
  \<^verbatim>\<open>notifyFormDeleted\<close> also clears the pending debounce timer of \<open>f\<close>: the slot of
  \<open>f\<close> is empty afterwards and no timer of \<open>f\<close> is left in the queue.
  \<^verbatim>\<open>notifyFormCreated\<close> leaves the pending timers as they are.
\<close>

theorem immediate_dispatch:
  "dispatched (notifyFormCreated now f d n) = dispatched n @ [(f, Created, d)] \<and>
   timers (notifyFormCreated now f d n) = timers n \<and>
   pendingNotifications (notifyFormCreated now f d n) = pendingNotifications n \<and>
   dispatched (notifyFormDeleted now f n) = dispatched n @ [(f, Deleted, None)] \<and>
   pendingNotifications (notifyFormDeleted now f n) f = None \<and>
   set (timers (notifyFormDeleted now f n)) \<subseteq> set (timers n) \<and>
   (timers_tracked n \<longrightarrow> timers_for f (notifyFormDeleted now f n) = [])"
proof -
  have "timers_for f (notifyFormDeleted now f n) = []" if "timers_tracked n"
    using that
    by (auto simp: timers_for_def notifyFormDeleted_timers timers_tracked_def filter_empty_conv
        split: option.splits)
  moreover have "set (timers (notifyFormDeleted now f n)) \<subseteq> set (timers n)"
    by (auto simp: notifyFormDeleted_timers split: option.splits)
  ultimately show ?thesis
    by (simp add: notifyFormCreated_def sendNotification_frame notifyFormDeleted_frame)
qed

lemma notifyFormUpdated_state:
  "timers (notifyFormUpdated at f p n) =
     (case pendingNotifications n f of
        Some h \<Rightarrow> filter (\<lambda>t. timer_id t \<noteq> h) (timers n) | None \<Rightarrow> timers n)
     @ [\<lparr> timer_id = nextTimerId n, due = at + timer_delay (debounceInterval n),
          t_formId = f, t_changeType = Updated, t_formData = p \<rparr>]"
  "pendingNotifications (notifyFormUpdated at f p n) = (pendingNotifications n)(f \<mapsto> nextTimerId n)"
  "dispatched (notifyFormUpdated at f p n) = dispatched n"
  "debounceInterval (notifyFormUpdated at f p n) = debounceInterval n"
  by (simp_all add: notifyFormUpdated_def debounceNotification_def setTimeout_def
      clearTimeout_def Let_def split: option.splits)

text \<open>
  Claim C5 as stated fails for \<^verbatim>\<open>notifyFormCreated\<close>: the timer that an update of
  \<open>f1\<close> set is still pending and still in the queue after the creation event.
\<close>

theorem created_keeps_timer_counterexample:
  "pendingNotifications
     (notifyFormUpdated 0 ''f1'' None (new_notifier \<lparr> connections = Map.empty \<rparr> 500)) ''f1''
     = Some 0 \<and>
   pendingNotifications
     (notifyFormCreated 10 ''f1'' None
        (notifyFormUpdated 0 ''f1'' None (new_notifier \<lparr> connections = Map.empty \<rparr> 500))) ''f1''
     = Some 0 \<and>
   timers
     (notifyFormCreated 10 ''f1'' None
        (notifyFormUpdated 0 ''f1'' None (new_notifier \<lparr> connections = Map.empty \<rparr> 500)))
     = [\<lparr> timer_id = 0, due = 500, t_formId = ''f1'', t_changeType = Updated,
          t_formData = None \<rparr>]"
  by (simp add: notifyFormCreated_def sendNotification_frame notifyFormUpdated_state
      new_notifier_def timer_delay_def)

text \<open>The theorem at a deletion of \<open>f1\<close> while an update of \<open>f1\<close> is pending.\<close>

theorem immediate_dispatch_witness:
  "timers_tracked
     (notifyFormUpdated 0 ''f1'' None (new_notifier \<lparr> connections = Map.empty \<rparr> 500)) \<and>
   timers_for ''f1''
     (notifyFormUpdated 0 ''f1'' None (new_notifier \<lparr> connections = Map.empty \<rparr> 500)) \<noteq> [] \<and>
   timers_for ''f1''
     (notifyFormDeleted 10 ''f1''
        (notifyFormUpdated 0 ''f1'' None (new_notifier \<lparr> connections = Map.empty \<rparr> 500))) = []"
proof -
  have h: "timers_tracked
     (notifyFormUpdated 0 ''f1'' None (new_notifier \<lparr> connections = Map.empty \<rparr> 500))"
    by (simp add: timers_tracked_def notifyFormUpdated_state new_notifier_def)
  have k: "timers_for ''f1''
     (notifyFormUpdated 0 ''f1'' None (new_notifier \<lparr> connections = Map.empty \<rparr> 500)) \<noteq> []"
    by (simp add: timers_for_def notifyFormUpdated_state new_notifier_def)
  from h k immediate_dispatch
    [of 10 "''f1''" None
        "notifyFormUpdated 0 ''f1'' None (new_notifier \<lparr> connections = Map.empty \<rparr> 500)"]
  show ?thesis by blast
qed

section \<open>Properties of the debounce\<close>


lemma timer_callback_frame:
  "timers (timer_callback now t n) = timers n"
  "debounceInterval (timer_callback now t n) = debounceInterval n"
  "pendingNotifications (timer_callback now t n) = (pendingNotifications n)(t_formId t := None)"
  "dispatched (timer_callback now t n) = dispatched n @ [(t_formId t, t_changeType t, t_formData t)]"
  by (simp_all add: timer_callback_def Let_def sendNotification_frame)

lemma earliest_mem: "earliest ts = Some t \<Longrightarrow> t \<in> set ts"
  by (induction ts arbitrary: t) (auto split: option.splits if_splits)
















lemma timer_delay_honoured: "1 \<le> d \<Longrightarrow> d \<le> 2147483647 \<Longrightarrow> timer_delay d = d"
  by (simp add: timer_delay_def)






subsection \<open>The timer queue under the operations of the router\<close>


lemma register_frame:
  "timers (registerPreviewConnection t c f n) = timers n"
  "pendingNotifications (registerPreviewConnection t c f n) = pendingNotifications n"
  by (simp_all add: registerPreviewConnection_def Let_def unregister_frame)

lemma timers_ok_new: "timers_ok (new_notifier mgr d)"
  by (simp add: timers_ok_def timers_tracked_def new_notifier_def)

lemma timers_ok_register: "timers_ok n \<Longrightarrow> timers_ok (registerPreviewConnection t c f n)"
  by (simp add: timers_ok_def timers_tracked_def register_frame)

lemma timers_ok_unregister: "timers_ok n \<Longrightarrow> timers_ok (unregisterPreviewConnection c n)"
  by (simp add: timers_ok_def timers_tracked_def unregister_frame)

lemma timers_ok_created: "timers_ok n \<Longrightarrow> timers_ok (notifyFormCreated now f d n)"
  by (simp add: timers_ok_def timers_tracked_def notifyFormCreated_def sendNotification_frame)

lemma timers_ok_updated:
  assumes "timers_ok n"
  shows "timers_ok (notifyFormUpdated now f d n)"
proof -
  have tr: "\<And>t. t \<in> set (timers n) \<Longrightarrow> pendingNotifications n (t_formId t) = Some (timer_id t)"
    and di: "distinct (map t_formId (timers n))"
    using assms by (simp_all add: timers_ok_def timers_tracked_def)
  let ?old = "case pendingNotifications n f of
                Some h \<Rightarrow> filter (\<lambda>t. timer_id t \<noteq> h) (timers n) | None \<Rightarrow> timers n"
  have sub: "set ?old \<subseteq> set (timers n)"
    by (auto split: option.splits)
  have nof: "t \<in> set ?old \<Longrightarrow> t_formId t \<noteq> f" for t
    using tr by (auto split: option.splits)
  have d: "distinct (map t_formId ?old)"
    using di by (auto simp: distinct_map_filter split: option.splits)
  have "timers_tracked (notifyFormUpdated now f d n)"
    unfolding timers_tracked_def notifyFormUpdated_state
    using tr sub nof by auto
  moreover have "distinct (map t_formId (timers (notifyFormUpdated now f d n)))"
    unfolding notifyFormUpdated_state using d nof by auto
  ultimately show ?thesis by (simp add: timers_ok_def)
qed

lemma timers_ok_deleted:
  assumes "timers_ok n"
  shows "timers_ok (notifyFormDeleted now f n)"
proof -
  have tr: "\<And>t. t \<in> set (timers n) \<Longrightarrow> pendingNotifications n (t_formId t) = Some (timer_id t)"
    and di: "distinct (map t_formId (timers n))"
    using assms by (simp_all add: timers_ok_def timers_tracked_def)
  have p: "pendingNotifications (notifyFormDeleted now f n) = (pendingNotifications n)(f := None)"
    by (auto simp: notifyFormDeleted_unfold fold_unregister_frame cancel_pending_def
        clearTimeout_def sendNotification_frame split: option.splits)
  have "timers_tracked (notifyFormDeleted now f n)"
    unfolding timers_tracked_def p notifyFormDeleted_timers
    using tr by (auto split: option.splits)
  moreover have "distinct (map t_formId (timers (notifyFormDeleted now f n)))"
    unfolding notifyFormDeleted_timers using di
    by (auto simp: distinct_map_filter split: option.splits)
  ultimately show ?thesis by (simp add: timers_ok_def)
qed

lemma timers_ok_fire:
  assumes "timers_ok n" and "u \<in> set (timers n)"
  shows "timers_ok (timer_callback now u (n\<lparr> timers := remove1 u (timers n) \<rparr>))"
proof -
  have tr: "\<And>t. t \<in> set (timers n) \<Longrightarrow> pendingNotifications n (t_formId t) = Some (timer_id t)"
    and di: "distinct (map t_formId (timers n))"
    using assms by (simp_all add: timers_ok_def timers_tracked_def)
  have dt: "distinct (timers n)" using di by (simp add: distinct_map)
  have other: "t_formId t \<noteq> t_formId u" if "t \<in> set (remove1 u (timers n))" for t
  proof -
    have "t \<in> set (timers n)" "t \<noteq> u" using that dt by auto
    then show ?thesis
      using di assms(2) by (auto simp: distinct_map inj_on_def)
  qed
  have "timers_tracked (timer_callback now u (n\<lparr> timers := remove1 u (timers n) \<rparr>))"
    unfolding timers_tracked_def timer_callback_frame
    using tr other dt by auto
  moreover have "distinct (map t_formId (remove1 u (timers n)))"
    using di by (simp add: distinct_map inj_on_def)
  ultimately show ?thesis by (simp add: timers_ok_def timer_callback_frame)
qed

lemma timers_ok_run_until: "timers_ok n \<Longrightarrow> timers_ok (run_until T n)"
proof (induction T n rule: run_until.induct)
  case (1 T n)
  show ?case
  proof (cases "earliest (timers n)")
    case None
    then show ?thesis using "1.prems" by (subst run_until.simps) simp
  next
    case (Some u)
    show ?thesis
    proof (cases "due u \<le> T")
      case True
      have "timers_ok (timer_callback (due u) u (n\<lparr> timers := remove1 u (timers n) \<rparr>))"
        using "1.prems" earliest_mem [OF Some] by (rule timers_ok_fire)
      from "1.IH" [OF Some True this] show ?thesis
        using Some True by (subst run_until.simps) simp
    next
      case False
      then show ?thesis using Some "1.prems" by (subst run_until.simps) simp
    qed
  qed
qed


end
